theory Spec2Isabelle
  imports Complex_Main "HOL-Library.AList" "HOL-Library.Word"
begin

section \<open>JavaScript values\<close>

text \<open>
  JSON-like values as the adapter sees them at run time. An object is an association
  list in property order; \<open>JUndefined\<close> is the value of a property that is present
  but holds \<open>undefined\<close>. Numbers are kept as integers (no claim depends on fractions).
\<close>

datatype json =
    JUndefined
  | JNull
  | JBool bool
  | JNum int
  | JStr string
  | JArr "json list"
  | JObj "(string \<times> json) list"

text \<open>JavaScript truthiness, as used by \<open>if (x)\<close>, \<open>x || y\<close> and \<open>!x\<close>.\<close>

fun truthy :: "json \<Rightarrow> bool" where
  "truthy JUndefined = False"
| "truthy JNull = False"
| "truthy (JBool b) = b"
| "truthy (JNum n) = (n \<noteq> 0)"
| "truthy (JStr s) = (s \<noteq> [])"
| "truthy (JArr xs) = True"
| "truthy (JObj kv) = True"

text \<open>Truthiness of an optional string: \<open>undefined\<close> and the empty string are falsy.\<close>

fun truthy_str :: "string option \<Rightarrow> bool" where
  "truthy_str None = False"
| "truthy_str (Some s) = (s \<noteq> [])"

text \<open>\<open>x || 0\<close> on an optional token count.\<close>

fun or_zero :: "int option \<Rightarrow> int" where
  "or_zero None = 0"
| "or_zero (Some n) = n"

text \<open>\<open>x || ''\<close> on an optional string.\<close>

fun or_empty :: "string option \<Rightarrow> string" where
  "or_empty None = []"
| "or_empty (Some s) = s"

section \<open>Errors\<close>

text \<open>A thrown \<open>Error\<close> object: its \<open>name\<close> and its \<open>message\<close>.\<close>

datatype error = Error (err_name: string) (err_message: string)

text \<open>
  \<open>const abortError = new Error('Request aborted'); abortError.name = 'AbortError'\<close>
\<close>

definition abortError :: error where
  "abortError = Error ''AbortError'' ''Request aborted''"

section \<open>Backend responses and stream chunks\<close>

record functionCall =
  fc_name :: "string option"
  fc_args :: "json option"

record inlineData =
  mimeType :: string
  inline_data :: string

record functionResponse =
  fr_name :: string
  fr_response :: json

text \<open>A backend \<open>Part\<close>: every field is optional, in requests and in responses.\<close>

record part =
  p_text :: "string option"
  p_inlineData :: "inlineData option"
  p_functionCall :: "functionCall option"
  p_functionResponse :: "functionResponse option"
  p_thoughtSignature :: "string option"

record content =
  c_role :: "string option"
  c_parts :: "part list option"

record candidate =
  cand_content :: "content option"
  cand_finishReason :: "string option"

record usageMetadata =
  promptTokenCount :: "int option"
  candidatesTokenCount :: "int option"

record generateContentResponse =
  candidates :: "candidate list option"
  usageMetadata :: "usageMetadata option"

text \<open>\<open>response.candidates?.[0]\<close>\<close>

fun first_candidate :: "generateContentResponse \<Rightarrow> candidate option" where
  "first_candidate r =
     (case candidates r of
        None \<Rightarrow> None
      | Some [] \<Rightarrow> None
      | Some (c # _) \<Rightarrow> Some c)"

text \<open>\<open>candidate?.content?.parts\<close>, with an absent list read as no parts to visit.\<close>

fun candidate_parts :: "candidate option \<Rightarrow> part list" where
  "candidate_parts None = []"
| "candidate_parts (Some c) =
     (case cand_content c of
        None \<Rightarrow> []
      | Some ct \<Rightarrow> (case c_parts ct of None \<Rightarrow> [] | Some ps \<Rightarrow> ps))"

text \<open>\<open>candidate?.finishReason\<close>\<close>

fun candidate_finishReason :: "candidate option \<Rightarrow> string option" where
  "candidate_finishReason None = None"
| "candidate_finishReason (Some c) = cand_finishReason c"

section \<open>Unified results\<close>

datatype unified = Stop | Length | ContentFilter | ToolCalls | Other

record finishReason =
  fr_unified :: unified
  fr_raw :: "string option"

record inputTokens =
  in_total :: "int option"
  noCache :: "int option"
  cacheRead :: "int option"
  cacheWrite :: "int option"

record outputTokens =
  out_total :: "int option"
  out_text :: "int option"
  reasoning :: "int option"

record usage =
  u_inputTokens :: inputTokens
  u_outputTokens :: outputTokens

record warning =
  w_type :: string
  w_feature :: string
  w_details :: string

text \<open>
  The usage object both orchestrators build from the two running totals: the totals
  are always numbers, the breakdown fields are always \<open>undefined\<close>.
\<close>

definition make_usage :: "int \<Rightarrow> int \<Rightarrow> usage" where
  "make_usage inputTokens outputTokens =
     \<lparr> u_inputTokens = \<lparr> in_total = Some inputTokens, noCache = None,
                          cacheRead = None, cacheWrite = None \<rparr>,
       u_outputTokens = \<lparr> out_total = Some outputTokens, out_text = None,
                           reasoning = None \<rparr> \<rparr>"

text \<open>\<open>mapGeminiFinishReason\<close>: the switch on the backend's finish reason.\<close>

definition mapGeminiFinishReason :: "string option \<Rightarrow> finishReason" where
  "mapGeminiFinishReason geminiReason =
     (if geminiReason = Some ''STOP'' then \<lparr> fr_unified = Stop, fr_raw = geminiReason \<rparr>
      else if geminiReason = Some ''MAX_TOKENS'' then \<lparr> fr_unified = Length, fr_raw = geminiReason \<rparr>
      else if geminiReason = Some ''SAFETY'' \<or> geminiReason = Some ''RECITATION''
        then \<lparr> fr_unified = ContentFilter, fr_raw = geminiReason \<rparr>
      else if geminiReason = Some ''OTHER'' then \<lparr> fr_unified = Other, fr_raw = geminiReason \<rparr>
      else \<lparr> fr_unified = Other, fr_raw = geminiReason \<rparr>)"

text \<open>
  \<open>hasToolCalls ? { unified: 'tool-calls', raw: reason } : mapGeminiFinishReason(reason)\<close>,
  the expression both orchestrators use.
\<close>

definition decide_finishReason :: "bool \<Rightarrow> string option \<Rightarrow> finishReason" where
  "decide_finishReason hasToolCalls reason =
     (if hasToolCalls then \<lparr> fr_unified = ToolCalls, fr_raw = reason \<rparr>
      else mapGeminiFinishReason reason)"

section \<open>The streaming state machine\<close>

text \<open>
  Identifiers drawn from \<open>randomUUID()\<close> are modelled by a counter: the n-th draw
  returns \<open>n\<close>. A real UUID is a non-empty string, so \<open>!textPartId\<close> holds exactly
  when no id has been assigned yet.
\<close>

type_synonym uuid = nat

datatype streamPart =
    StreamStart "warning list"
  | TextStart uuid
  | TextDelta uuid string
  | TextEnd uuid
  | ToolCall uuid string json "string option"
  | ResponseMetadata uuid nat string
  | Finish finishReason usage

text \<open>
  The local variables of the stream's \<open>start\<close> callback, the events handed to
  \<open>controller.enqueue\<close> so far, in that order, and the UUID counter. An event counts
  as emitted once it has been handed to \<open>controller.enqueue\<close>.
\<close>

record streamState =
  totalInputTokens :: int
  totalOutputTokens :: int
  textPartId :: "uuid option"
  hasToolCalls :: bool
  enqueued :: "streamPart list"
  next_uuid :: uuid

definition enqueue :: "streamPart \<Rightarrow> streamState \<Rightarrow> streamState" where
  "enqueue e st = st\<lparr> enqueued := enqueued st @ [e] \<rparr>"

text \<open>The text branch of the loop over \<open>content.parts\<close>.\<close>

definition emit_text :: "string \<Rightarrow> streamState \<Rightarrow> streamState" where
  "emit_text t st =
     (case textPartId st of
        None \<Rightarrow>
          enqueue (TextDelta (next_uuid st) t)
            (enqueue (TextStart (next_uuid st))
               (st\<lparr> textPartId := Some (next_uuid st), next_uuid := Suc (next_uuid st) \<rparr>))
      | Some i \<Rightarrow> enqueue (TextDelta i t) st)"

text \<open>
  The function-call branch. The event carries \<open>part.functionCall.args || {}\<close>, the value
  the source hands to \<open>JSON.stringify\<close>, and the thought signature when it is truthy.
\<close>

definition emit_tool_call :: "functionCall \<Rightarrow> string option \<Rightarrow> streamState \<Rightarrow> streamState" where
  "emit_tool_call fc sig st =
     enqueue
       (ToolCall (next_uuid st) (or_empty (fc_name fc))
          (case fc_args fc of None \<Rightarrow> JObj [] | Some a \<Rightarrow> (if truthy a then a else JObj []))
          (if truthy_str sig then sig else None))
       (st\<lparr> hasToolCalls := True, next_uuid := Suc (next_uuid st) \<rparr>)"

definition process_part :: "streamState \<Rightarrow> part \<Rightarrow> streamState" where
  "process_part st p =
     (if truthy_str (p_text p) then emit_text (or_empty (p_text p)) st
      else (case p_functionCall p of
              Some fc \<Rightarrow> emit_tool_call fc (p_thoughtSignature p) st
            | None \<Rightarrow> st))"

text \<open>\<open>if (chunk.usageMetadata) { ... }\<close>: later totals replace earlier ones.\<close>

definition update_usage :: "usageMetadata option \<Rightarrow> streamState \<Rightarrow> streamState" where
  "update_usage um st =
     (case um of
        None \<Rightarrow> st
      | Some u \<Rightarrow> st\<lparr> totalInputTokens := or_zero (promptTokenCount u),
                       totalOutputTokens := or_zero (candidatesTokenCount u) \<rparr>)"

text \<open>\<open>if (candidate?.finishReason) { ... }\<close> at the end of the loop body.\<close>

definition finish_chunk :: "string \<Rightarrow> nat \<Rightarrow> string option \<Rightarrow> streamState \<Rightarrow> streamState" where
  "finish_chunk modelId now reason st =
     (if truthy_str reason then
        (let st1 = (case textPartId st of Some i \<Rightarrow> enqueue (TextEnd i) st | None \<Rightarrow> st);
             fr = decide_finishReason (hasToolCalls st1) reason;
             st2 = enqueue (ResponseMetadata (next_uuid st1) now modelId)
                     (st1\<lparr> next_uuid := Suc (next_uuid st1) \<rparr>)
         in enqueue (Finish fr (make_usage (totalInputTokens st2) (totalOutputTokens st2))) st2)
      else st)"

text \<open>One pass of the body of \<open>for await (const chunk of streamResponse)\<close> after the abort check.\<close>

definition process_chunk :: "string \<Rightarrow> nat \<Rightarrow> streamState \<Rightarrow> generateContentResponse \<Rightarrow> streamState" where
  "process_chunk modelId now st chunk =
     (let candidate = first_candidate chunk;
          st1 = update_usage (usageMetadata chunk) st;
          st2 = foldl process_part st1 (candidate_parts candidate)
      in finish_chunk modelId now (candidate_finishReason candidate) st2)"

text \<open>
  What the backend's async iterable does at each step the loop awaits: it delivers a
  chunk, observed together with the value of \<open>options.abortSignal?.aborted\<close> and the
  clock at that moment, or it raises.
\<close>

record arrival =
  arr_aborted :: bool
  arr_now :: nat
  arr_chunk :: generateContentResponse

datatype backend_item = Chunk arrival | Raise error

datatype stream_end = Closed | Errored error

text \<open>
  The \<open>for await\<close> loop with its \<open>try\<close>/\<open>catch\<close>: an abort seen before a chunk errors the
  stream with the abort error itself, an exception of the iterable errors it with the
  mapped error, and the end of the iterable closes it.
\<close>

fun run_chunks ::
  "(error \<Rightarrow> error) \<Rightarrow> string \<Rightarrow> streamState \<Rightarrow> backend_item list \<Rightarrow> streamState \<times> stream_end" where
  "run_chunks mapGeminiError modelId st [] = (st, Closed)"
| "run_chunks mapGeminiError modelId st (Raise e # rest) = (st, Errored (mapGeminiError e))"
| "run_chunks mapGeminiError modelId st (Chunk a # rest) =
     (if arr_aborted a then (st, Errored abortError)
      else run_chunks mapGeminiError modelId
             (process_chunk modelId (arr_now a) st (arr_chunk a)) rest)"

text \<open>
  The \<open>start\<close> callback of the \<open>ReadableStream\<close>: the abort check, the initial values of
  the locals, \<open>stream-start\<close>, then the loop. \<open>uuid0\<close> is the state of the UUID counter
  when the callback runs.
\<close>

definition stream_start ::
  "(error \<Rightarrow> error) \<Rightarrow> string \<Rightarrow> warning list \<Rightarrow> bool \<Rightarrow> uuid \<Rightarrow> backend_item list
     \<Rightarrow> streamPart list \<times> stream_end" where
  "stream_start mapGeminiError modelId streamWarnings aborted_at_start uuid0 items =
     (if aborted_at_start then ([], Errored abortError)
      else
        (let st0 = \<lparr> totalInputTokens = 0, totalOutputTokens = 0, textPartId = None,
                     hasToolCalls = False, enqueued = [], next_uuid = uuid0 \<rparr>;
             (st, e) = run_chunks mapGeminiError modelId
                         (enqueue (StreamStart streamWarnings) st0) items
         in (enqueued st, e)))"


section \<open>Schema cleaner (tool-mapper)\<close>

definition digit_char :: "nat \<Rightarrow> char" where
  "digit_char d = ''0123456789'' ! d"

text \<open>The decimal name of an array index, as \<open>Object.entries\<close> and a spread produce it.\<close>

function show_nat :: "nat \<Rightarrow> string" where
  "show_nat n =
     (if n < 10 then [digit_char n] else show_nat (n div 10) @ [digit_char (n mod 10)])"
  by pat_completeness auto
termination
  by (relation "measure id") auto

declare show_nat.simps [simp del]

definition array_entries :: "json list \<Rightarrow> (string \<times> json) list" where
  "array_entries xs = zip (map show_nat [0..<length xs]) xs"

text \<open>
  The own enumerable properties of a value for which \<open>typeof x === 'object' && x !== null\<close>
  holds (an object, or an array with its indices as keys); \<open>None\<close> for every other value.
\<close>

fun own_entries :: "json \<Rightarrow> (string \<times> json) list option" where
  "own_entries (JObj kv) = Some kv"
| "own_entries (JArr xs) = Some (array_entries xs)"
| "own_entries _ = None"

text \<open>Property read \<open>obj[k]\<close>: a missing property reads as \<open>undefined\<close>.\<close>

definition get_prop :: "(string \<times> json) list \<Rightarrow> string \<Rightarrow> json" where
  "get_prop kv k = (case map_of kv k of None \<Rightarrow> JUndefined | Some v \<Rightarrow> v)"

lemma size_own_entries:
  "own_entries s = Some kv \<Longrightarrow> (k, v) \<in> set kv \<Longrightarrow> size v < size s"
proof (cases s)
  case (JArr xs)
  assume "own_entries s = Some kv" "(k, v) \<in> set kv"
  with JArr have "v \<in> set xs"
    by (auto simp: array_entries_def dest: set_zip_rightD)
  then have "size v \<le> size_list size xs"
    by (simp add: size_list_estimation')
  with JArr show ?thesis by simp
next
  case (JObj ps)
  assume "own_entries s = Some kv" "(k, v) \<in> set kv"
  with JObj have "(k, v) \<in> set ps" by simp
  then have "size_prod (\<lambda>_. 0) size (k, v) \<le> size_list (size_prod (\<lambda>_. 0) size) ps"
    by (rule size_list_estimation') simp
  with JObj show ?thesis by simp
qed simp_all

lemma get_prop_mem:
  "get_prop kv k \<noteq> JUndefined \<Longrightarrow> (k, get_prop kv k) \<in> set kv"
  by (auto simp: get_prop_def split: option.splits dest: map_of_SomeD)

lemma get_prop_update:
  "get_prop (AList.update k v al) k' = (if k = k' then v else get_prop al k')"
  by (simp add: get_prop_def update_conv')

lemma get_prop_delete:
  "get_prop (AList.delete k al) k' = (if k = k' then JUndefined else get_prop al k')"
  by (simp add: get_prop_def delete_conv')

lemma size_get_prop:
  "own_entries s = Some kv \<Longrightarrow> get_prop kv k \<noteq> JUndefined \<Longrightarrow> size (get_prop kv k) < size s"
  using size_own_entries get_prop_mem by blast

lemma size_array_elem: "x \<in> set xs \<Longrightarrow> size x < size (JArr xs)"
  by (induction xs) auto

lemma get_prop_upd_if:
  "k \<noteq> k' \<Longrightarrow> get_prop (if b then AList.update k v c else c) k' = get_prop c k'"
  by (simp add: get_prop_update)

lemma get_prop_upd_opt:
  "k \<noteq> k' \<Longrightarrow>
   get_prop (case x of None \<Rightarrow> c | Some p \<Rightarrow> AList.update k (f p) c) k' = get_prop c k'"
  by (simp add: get_prop_update split: option.splits)

lemma get_prop_upd_arr:
  "k \<noteq> k' \<Longrightarrow>
   get_prop (case j of JArr a \<Rightarrow> AList.update k (f a) c | _ \<Rightarrow> c) k' = get_prop c k'"
  by (simp add: get_prop_update split: json.splits)

lemmas get_prop_steps = get_prop_delete get_prop_upd_if get_prop_upd_opt get_prop_upd_arr

text \<open>
  \<open>cleanJsonSchema\<close>. \<open>c0\<close> is the spread copy after the four \<open>delete\<close>s; each later
  \<open>c\<close> is \<open>cleaned\<close> after the next statement of the source. Assigning to a property
  that exists keeps its place, assigning to a new one appends it. The assignment
  \<open>cleanedProps[key] = ...\<close> with the key \<open>__proto__\<close> goes to the prototype setter of the
  fresh object and adds no own property, so that entry is not among the new properties.
\<close>

function cleanJsonSchema :: "json \<Rightarrow> json" where
  "cleanJsonSchema schema =
     (case own_entries schema of
        None \<Rightarrow> schema
      | Some kv \<Rightarrow>
          (let c0 = AList.delete ''definitions'' (AList.delete ''$defs''
                      (AList.delete ''$ref'' (AList.delete ''$schema'' kv)));
               c1 = (case own_entries (get_prop c0 ''properties'') of
                       Some props \<Rightarrow>
                         AList.update ''properties''
                           (JObj (map (\<lambda>(key, v). (key, cleanJsonSchema v))
                                    (filter (\<lambda>(key, v). key \<noteq> ''__proto__'') props))) c0
                     | None \<Rightarrow> c0);
               c2 = (if truthy (get_prop c1 ''items'')
                     then AList.update ''items'' (cleanJsonSchema (get_prop c1 ''items'')) c1
                     else c1);
               c3 = (if own_entries (get_prop c2 ''additionalProperties'') \<noteq> None
                     then AList.update ''additionalProperties''
                            (cleanJsonSchema (get_prop c2 ''additionalProperties'')) c2
                     else c2);
               c4 = (case get_prop c3 ''allOf'' of
                       JArr arrayProp \<Rightarrow>
                         AList.update ''allOf'' (JArr (map cleanJsonSchema arrayProp)) c3
                     | _ \<Rightarrow> c3);
               c5 = (case get_prop c4 ''anyOf'' of
                       JArr arrayProp \<Rightarrow>
                         AList.update ''anyOf'' (JArr (map cleanJsonSchema arrayProp)) c4
                     | _ \<Rightarrow> c4);
               c6 = (case get_prop c5 ''oneOf'' of
                       JArr arrayProp \<Rightarrow>
                         AList.update ''oneOf'' (JArr (map cleanJsonSchema arrayProp)) c5
                     | _ \<Rightarrow> c5);
               c7 = (if truthy (get_prop c6 ''properties'') \<and> get_prop c6 ''type'' = JUndefined
                     then AList.update ''type'' (JStr ''object'') c6
                     else c6)
           in JObj c7))"
  by pat_completeness auto
termination
proof (relation "measure size", goal_cases)
  case 1
  show ?case by simp
next
  case (2 schema kv c0 props xa key v)
  have "get_prop c0 ''properties'' = get_prop kv ''properties''"
    using 2(2) by (simp add: get_prop_steps)
  with 2(3) have p: "own_entries (get_prop kv ''properties'') = Some props" by simp
  then have "get_prop kv ''properties'' \<noteq> JUndefined" by auto
  with 2(1) have "size (get_prop kv ''properties'') < size schema"
    by (rule size_get_prop)
  moreover have "size v < size (get_prop kv ''properties'')"
    using p 2(4,5) size_own_entries[of "get_prop kv ''properties''" props key v] by auto
  ultimately show ?case by simp
next
  case (3 schema kv c0 c1)
  have "get_prop c1 ''items'' = get_prop kv ''items''"
    using 3(2,3) by (simp add: get_prop_steps)
  moreover from this 3(4) have "get_prop kv ''items'' \<noteq> JUndefined" by auto
  ultimately show ?case using size_get_prop[OF 3(1)] by simp
next
  case (4 schema kv c0 c1 c2)
  have "get_prop c2 ''additionalProperties'' = get_prop kv ''additionalProperties''"
    using 4(2-4) by (simp add: get_prop_steps)
  moreover from this 4(5) have "get_prop kv ''additionalProperties'' \<noteq> JUndefined" by auto
  ultimately show ?case using size_get_prop[OF 4(1)] by simp
next
  case (5 schema kv c0 c1 c2 c3 arr x)
  have "get_prop c3 ''allOf'' = get_prop kv ''allOf''"
    using 5(2-5) by (simp add: get_prop_steps)
  with 5(6) have "get_prop kv ''allOf'' = JArr arr" by simp
  with size_get_prop[OF 5(1), of "''allOf''"] size_array_elem[OF 5(7)]
  show ?case by simp
next
  case (6 schema kv c0 c1 c2 c3 c4 arr x)
  have "get_prop c4 ''anyOf'' = get_prop kv ''anyOf''"
    using 6(2-6) by (simp add: get_prop_steps)
  with 6(7) have "get_prop kv ''anyOf'' = JArr arr" by simp
  with size_get_prop[OF 6(1), of "''anyOf''"] size_array_elem[OF 6(8)]
  show ?case by simp
next
  case (7 schema kv c0 c1 c2 c3 c4 c5 arr x)
  have "get_prop c5 ''oneOf'' = get_prop kv ''oneOf''"
    using 7(2-7) by (simp add: get_prop_steps)
  with 7(8) have "get_prop kv ''oneOf'' = JArr arr" by simp
  with size_get_prop[OF 7(1), of "''oneOf''"] size_array_elem[OF 7(9)]
  show ?case by simp
qed

declare cleanJsonSchema.simps [simp del]


definition removed_keys :: "string list" where
  "removed_keys = [''$schema'', ''$ref'', ''$defs'', ''definitions'']"

text \<open>
  The sub-schemas of a schema under the six keywords the cleaner handles: the values of
  an object-like \<open>properties\<close>, the schema under \<open>items\<close> or, when \<open>items\<close> is an array
  (the tuple form), each of its elements, an object-like \<open>additionalProperties\<close>, and
  the elements of an array under \<open>allOf\<close>, \<open>anyOf\<close> or \<open>oneOf\<close>.
\<close>

definition array_elems :: "json \<Rightarrow> json list" where
  "array_elems j = (case j of JArr xs \<Rightarrow> xs | _ \<Rightarrow> [])"

definition items_schemas :: "json \<Rightarrow> json list" where
  "items_schemas j = (case j of JArr xs \<Rightarrow> xs | _ \<Rightarrow> (if truthy j then [j] else []))"

definition subschemas :: "json \<Rightarrow> json list" where
  "subschemas j =
     (case own_entries j of
        None \<Rightarrow> []
      | Some kv \<Rightarrow>
          (case own_entries (get_prop kv ''properties'') of
             Some props \<Rightarrow> map snd props | None \<Rightarrow> [])
          @ items_schemas (get_prop kv ''items'')
          @ (if own_entries (get_prop kv ''additionalProperties'') \<noteq> None
             then [get_prop kv ''additionalProperties''] else [])
          @ array_elems (get_prop kv ''allOf'')
          @ array_elems (get_prop kv ''anyOf'')
          @ array_elems (get_prop kv ''oneOf''))"

lemma size_subschemas: "c \<in> set (subschemas j) \<Longrightarrow> size c < size j"
proof (cases "own_entries j")
  case None
  assume "c \<in> set (subschemas j)"
  with None show ?thesis by (simp add: subschemas_def)
next
  case (Some kv)
  have sub: "size x < size j" if "get_prop kv k \<noteq> JUndefined" "size x \<le> size (get_prop kv k)"
    for x :: json and k
    using size_get_prop[OF Some that(1)] that(2) by simp
  have arr: "size c < size j" if "c \<in> set (array_elems (get_prop kv k))" for k
  proof (cases "get_prop kv k")
    case (JArr xs)
    with that have "c \<in> set xs" by (simp add: array_elems_def)
    then have "size c \<le> size (get_prop kv k)" using size_array_elem[of c xs] JArr by simp
    with JArr show ?thesis by (intro sub[of k]) simp_all
  qed (use that in \<open>simp_all add: array_elems_def\<close>)
  assume "c \<in> set (subschemas j)"
  with Some consider
      (props) "c \<in> set (case own_entries (get_prop kv ''properties'') of
                           Some props \<Rightarrow> map snd props | None \<Rightarrow> [])"
    | (items) "c \<in> set (items_schemas (get_prop kv ''items''))"
    | (addl) "c \<in> set (if own_entries (get_prop kv ''additionalProperties'') \<noteq> None
                        then [get_prop kv ''additionalProperties''] else [])"
    | (allOf) "c \<in> set (array_elems (get_prop kv ''allOf''))"
    | (anyOf) "c \<in> set (array_elems (get_prop kv ''anyOf''))"
    | (oneOf) "c \<in> set (array_elems (get_prop kv ''oneOf''))"
    by (auto simp: subschemas_def)
  then show ?thesis
  proof cases
    case props
    show ?thesis
    proof (cases "own_entries (get_prop kv ''properties'')")
      case None
      with props show ?thesis by simp
    next
      case (Some ps)
      with props obtain key where "(key, c) \<in> set ps" by auto
      with Some have "size c < size (get_prop kv ''properties'')" by (rule size_own_entries)
      moreover from Some have "get_prop kv ''properties'' \<noteq> JUndefined" by auto
      ultimately show ?thesis by (intro sub[of "''properties''"]) simp_all
    qed
  next
    case items
    show ?thesis
    proof (cases "\<exists>xs. get_prop kv ''items'' = JArr xs")
      case True
      then obtain xs where xs: "get_prop kv ''items'' = JArr xs" by blast
      with items have "c \<in> set xs" by (simp add: items_schemas_def)
      then have "size c \<le> size (get_prop kv ''items'')"
        using size_array_elem[of c xs] xs by simp
      with xs show ?thesis by (intro sub[of "''items''"]) simp_all
    next
      case False
      with items have c: "c = get_prop kv ''items''" "truthy (get_prop kv ''items'')"
        by (cases "get_prop kv ''items''"; simp add: items_schemas_def split: if_splits)+
      then have "get_prop kv ''items'' \<noteq> JUndefined" by auto
      with c(1) show ?thesis by (intro sub[of "''items''"]) simp_all
    qed
  next
    case addl
    then have "own_entries (get_prop kv ''additionalProperties'') \<noteq> None"
      "c = get_prop kv ''additionalProperties''"
      by (simp_all split: if_splits)
    moreover from this have "get_prop kv ''additionalProperties'' \<noteq> JUndefined" by auto
    ultimately show ?thesis by (intro sub[of "''additionalProperties''"]) simp_all
  next
    case allOf
    then show ?thesis by (rule arr)
  next
    case anyOf
    then show ?thesis by (rule arr)
  next
    case oneOf
    then show ?thesis by (rule arr)
  qed
qed

text \<open>A schema together with all the sub-schemas below it.\<close>

function descendants :: "json \<Rightarrow> json list" where
  "descendants j = j # concat (map descendants (subschemas j))"
  by pat_completeness auto
termination
  by (relation "measure size") (simp_all add: size_subschemas)

declare descendants.simps [simp del]

text \<open>A schema whose \<open>items\<close> is in the tuple form, and a schema free of that form at every level.\<close>

definition tuple_items :: "json \<Rightarrow> bool" where
  "tuple_items j =
     (case own_entries j of
        None \<Rightarrow> False
      | Some kv \<Rightarrow> (case get_prop kv ''items'' of JArr xs \<Rightarrow> True | _ \<Rightarrow> False))"

definition single_items :: "json \<Rightarrow> bool" where
  "single_items s = list_all (\<lambda>t. \<not> tuple_items t) (descendants s)"

text \<open>The top-level keys of a value.\<close>

definition own_keys :: "json \<Rightarrow> string list" where
  "own_keys j = (case own_entries j of None \<Rightarrow> [] | Some kv \<Rightarrow> map fst kv)"

text \<open>\<open>isJsonSchema\<close>: an object with a \<open>type\<close>, \<open>properties\<close> or \<open>$schema\<close> key.\<close>

definition isJsonSchema :: "json \<Rightarrow> bool" where
  "isJsonSchema obj =
     (case own_entries obj of
        None \<Rightarrow> False
      | Some kv \<Rightarrow> ''type'' \<in> set (map fst kv) \<or> ''properties'' \<in> set (map fst kv)
                    \<or> ''$schema'' \<in> set (map fst kv))"

text \<open>\<open>isZodSchema\<close>: an object with a \<open>_def\<close> key whose \<open>typeof\<close> is \<open>'object'\<close>.\<close>

definition isZodSchema :: "json \<Rightarrow> bool" where
  "isZodSchema obj =
     (case own_entries obj of
        None \<Rightarrow> False
      | Some kv \<Rightarrow> ''_def'' \<in> set (map fst kv)
                    \<and> (get_prop kv ''_def'' = JNull \<or> own_entries (get_prop kv ''_def'') \<noteq> None))"

text \<open>
  \<open>convertToolParameters\<close>. \<open>convertZodToJsonSchema\<close> stands for the schema-builder
  conversion of the external library, which falls back to \<open>{ type: 'object' }\<close>.
\<close>

definition convertToolParameters :: "(json \<Rightarrow> json) \<Rightarrow> json \<Rightarrow> json" where
  "convertToolParameters convertZodToJsonSchema parameters =
     (if isJsonSchema parameters then cleanJsonSchema parameters
      else if isZodSchema parameters then cleanJsonSchema (convertZodToJsonSchema parameters)
      else parameters)"

record functionTool =
  tool_name :: string
  tool_description :: "string option"
  inputSchema :: json

record functionDeclaration =
  fd_name :: string
  fd_description :: "string option"
  fd_parameters :: json

text \<open>\<open>mapToolsToGeminiFormat\<close>: one tool entry holding a declaration for every function tool.\<close>

definition mapToolsToGeminiFormat ::
  "(json \<Rightarrow> json) \<Rightarrow> functionTool list \<Rightarrow> functionDeclaration list list" where
  "mapToolsToGeminiFormat convertZodToJsonSchema tools =
     [map (\<lambda>tool. \<lparr> fd_name = tool_name tool, fd_description = tool_description tool,
                      fd_parameters =
                        convertToolParameters convertZodToJsonSchema (inputSchema tool) \<rparr>) tools]"

section \<open>Message mapper\<close>

text \<open>The payload of a file part: a string, a \<open>Uint8Array\<close>, a \<open>URL\<close>, or any other shape.\<close>

datatype fileData =
    DataString string
  | DataBytes "8 word list"
  | DataURL string
  | DataOther

text \<open>One sub-part of a tool result of type \<open>content\<close>.\<close>

datatype contentItem = ItemText string | ItemOther

datatype toolResultOutput =
    OutText string
  | OutErrorText string
  | OutJson json
  | OutErrorJson json
  | OutExecutionDenied "string option"
  | OutContent "contentItem list"
  | OutUnknown

text \<open>
  The parts of a prompt message. A tool-call part carries its input and the value of
  \<open>providerOptions?.['gemini-cli']?.thoughtSignature\<close>.
\<close>

datatype promptPart =
    TextPart string
  | FilePart fileData string
  | ReasoningPart string
  | ToolCallPart string json "string option"
  | ToolResultPart string toolResultOutput
  | ToolApprovalPart

datatype message =
    SystemMessage string
  | UserMessage "promptPart list"
  | AssistantMessage "promptPart list"
  | ToolMessage "promptPart list"

text \<open>\<open>Buffer.from(bytes).toString('base64')\<close>\<close>

definition base64_alphabet :: string where
  "base64_alphabet = ''ABCDEFGHIJKLMNOPQRSTUVWXYZabcdefghijklmnopqrstuvwxyz0123456789+/''"

definition base64_char :: "nat \<Rightarrow> char" where
  "base64_char n = base64_alphabet ! (n mod 64)"

fun base64_nat :: "nat list \<Rightarrow> string" where
  "base64_nat [] = []"
| "base64_nat [a] =
     [base64_char (a div 4), base64_char ((a mod 4) * 16), CHR ''='', CHR ''='']"
| "base64_nat [a, b] =
     [base64_char (a div 4), base64_char ((a mod 4) * 16 + b div 16),
      base64_char ((b mod 16) * 4), CHR ''='']"
| "base64_nat (a # b # c # rest) =
     [base64_char (a div 4), base64_char ((a mod 4) * 16 + b div 16),
      base64_char ((b mod 16) * 4 + c div 64), base64_char (c mod 64)] @ base64_nat rest"

definition base64 :: "8 word list \<Rightarrow> string" where
  "base64 bytes = base64_nat (map unat bytes)"

text \<open>\<open>s.startsWith(p)\<close>\<close>

definition startsWith :: "string \<Rightarrow> string \<Rightarrow> bool" where
  "startsWith s p = (take (length p) s = p)"

text \<open>\<open>part.mediaType || 'application/octet-stream'\<close>\<close>

definition media_type_or_default :: "string \<Rightarrow> string" where
  "media_type_or_default mediaType =
     (if mediaType \<noteq> [] then mediaType else ''application/octet-stream'')"

definition text_part :: "string \<Rightarrow> part" where
  "text_part t = \<lparr> p_text = Some t, p_inlineData = None, p_functionCall = None,
                   p_functionResponse = None, p_thoughtSignature = None \<rparr>"

definition mapFilePart :: "fileData \<Rightarrow> string \<Rightarrow> error + part" where
  "mapFilePart d mediaType =
     (case d of
        DataURL u \<Rightarrow>
          Inl (Error ''Error''
            ''URL files are not supported by Gemini CLI Core. Please provide base64-encoded data.'')
      | DataString s \<Rightarrow>
          Inr \<lparr> p_text = None,
                p_inlineData = Some \<lparr> mimeType = media_type_or_default mediaType, inline_data = s \<rparr>,
                p_functionCall = None, p_functionResponse = None, p_thoughtSignature = None \<rparr>
      | DataBytes bs \<Rightarrow>
          Inr \<lparr> p_text = None,
                p_inlineData = Some \<lparr> mimeType = media_type_or_default mediaType,
                                       inline_data = base64 bs \<rparr>,
                p_functionCall = None, p_functionResponse = None, p_thoughtSignature = None \<rparr>
      | DataOther \<Rightarrow> Inl (Error ''Error'' ''Unsupported file format''))"

text \<open>
  The loop of \<open>mapUserMessage\<close> over \<open>message.content\<close>, with the parts pushed so far.
  The \<open>switch\<close> has cases for \<open>text\<close> and \<open>file\<close> only; a \<open>throw\<close> ends the loop.
\<close>

fun mapUserParts :: "part list \<Rightarrow> promptPart list \<Rightarrow> error + part list" where
  "mapUserParts parts [] = Inr parts"
| "mapUserParts parts (TextPart t # rest) = mapUserParts (parts @ [text_part t]) rest"
| "mapUserParts parts (FilePart d mt # rest) =
     (let mediaType = media_type_or_default mt in
      if startsWith mediaType ''image/'' \<or> startsWith mediaType ''audio/'' \<or>
         startsWith mediaType ''video/'' \<or> mediaType = ''application/pdf''
      then (case mapFilePart d mt of
              Inl e \<Rightarrow> Inl e
            | Inr p \<Rightarrow> mapUserParts (parts @ [p]) rest)
      else Inl (Error ''Error'' (''Unsupported file type: '' @ mediaType)))"
| "mapUserParts parts (_ # rest) = mapUserParts parts rest"

definition mapUserMessage :: "promptPart list \<Rightarrow> error + content" where
  "mapUserMessage msg_content =
     (case mapUserParts [] msg_content of
        Inl e \<Rightarrow> Inl e
      | Inr parts \<Rightarrow> Inr \<lparr> c_role = Some ''user'', c_parts = Some parts \<rparr>)"

text \<open>
  The loop of \<open>mapAssistantMessage\<close>. The \<open>switch\<close> has cases for \<open>text\<close> and
  \<open>tool-call\<close> only, and nothing in it throws.
\<close>

fun mapAssistantParts :: "part list \<Rightarrow> promptPart list \<Rightarrow> part list" where
  "mapAssistantParts parts [] = parts"
| "mapAssistantParts parts (TextPart t # rest) = mapAssistantParts (parts @ [text_part t]) rest"
| "mapAssistantParts parts (ToolCallPart toolName input sig # rest) =
     mapAssistantParts
       (parts @ [\<lparr> p_text = None, p_inlineData = None,
                   p_functionCall = Some \<lparr> fc_name = Some toolName,
                                           fc_args = Some (if truthy input then input else JObj []) \<rparr>,
                   p_functionResponse = None,
                   p_thoughtSignature = (if truthy_str sig then sig else None) \<rparr>])
       rest"
| "mapAssistantParts parts (_ # rest) = mapAssistantParts parts rest"

definition mapAssistantMessage :: "promptPart list \<Rightarrow> content" where
  "mapAssistantMessage msg_content =
     \<lparr> c_role = Some ''model'', c_parts = Some (mapAssistantParts [] msg_content) \<rparr>"

text \<open>\<open>xs.join(sep)\<close>\<close>

fun join :: "string \<Rightarrow> string list \<Rightarrow> string" where
  "join sep [] = []"
| "join sep [x] = x"
| "join sep (x # y # rest) = x @ sep @ join sep (y # rest)"

fun item_texts :: "contentItem list \<Rightarrow> string list" where
  "item_texts [] = []"
| "item_texts (ItemText t # rest) = t # item_texts rest"
| "item_texts (ItemOther # rest) = item_texts rest"

text \<open>The response object built for one tool result.\<close>

fun resultValue :: "toolResultOutput \<Rightarrow> json" where
  "resultValue (OutText v) = JObj [(''result'', JStr v)]"
| "resultValue (OutErrorText v) = JObj [(''result'', JStr v)]"
| "resultValue (OutJson v) = (case v of JObj kv \<Rightarrow> v | _ \<Rightarrow> JObj [(''result'', v)])"
| "resultValue (OutErrorJson v) = (case v of JObj kv \<Rightarrow> v | _ \<Rightarrow> JObj [(''result'', v)])"
| "resultValue (OutExecutionDenied reason) =
     JObj [(''result'',
            JStr (''[Execution denied''
                  @ (if truthy_str reason then '': '' @ or_empty reason else [])
                  @ '']''))]"
| "resultValue (OutContent items) =
     JObj [(''result'', JStr (join [CHR 0x0A] (item_texts items)))]"
| "resultValue OutUnknown = JObj [(''result'', JStr ''[Unknown output type]'')]"

fun mapToolParts :: "promptPart list \<Rightarrow> part list" where
  "mapToolParts [] = []"
| "mapToolParts (ToolResultPart toolName output # rest) =
     \<lparr> p_text = None, p_inlineData = None, p_functionCall = None,
       p_functionResponse = Some \<lparr> fr_name = toolName, fr_response = resultValue output \<rparr>,
       p_thoughtSignature = None \<rparr> # mapToolParts rest"
| "mapToolParts (_ # rest) = mapToolParts rest"

record geminiPromptResult =
  contents :: "content list"
  systemInstruction :: "content option"

text \<open>The loop of \<open>mapPromptToGeminiFormat\<close> over the messages.\<close>

fun mapMessages :: "geminiPromptResult \<Rightarrow> message list \<Rightarrow> error + geminiPromptResult" where
  "mapMessages acc [] = Inr acc"
| "mapMessages acc (SystemMessage t # rest) =
     mapMessages
       (acc\<lparr> systemInstruction :=
               Some \<lparr> c_role = Some ''user'', c_parts = Some [text_part t] \<rparr> \<rparr>) rest"
| "mapMessages acc (UserMessage ps # rest) =
     (case mapUserMessage ps of
        Inl e \<Rightarrow> Inl e
      | Inr c \<Rightarrow> mapMessages (acc\<lparr> contents := contents acc @ [c] \<rparr>) rest)"
| "mapMessages acc (AssistantMessage ps # rest) =
     mapMessages (acc\<lparr> contents := contents acc @ [mapAssistantMessage ps] \<rparr>) rest"
| "mapMessages acc (ToolMessage ps # rest) =
     mapMessages
       (acc\<lparr> contents := contents acc
                 @ [\<lparr> c_role = Some ''user'', c_parts = Some (mapToolParts ps) \<rparr>] \<rparr>) rest"

definition mapPromptToGeminiFormat :: "message list \<Rightarrow> error + geminiPromptResult" where
  "mapPromptToGeminiFormat prompt =
     mapMessages \<lparr> contents = [], systemInstruction = None \<rparr> prompt"

section \<open>Tool choice (tool-mapper)\<close>

datatype toolChoice = ChoiceAuto | ChoiceNone | ChoiceRequired | ChoiceTool string

datatype functionCallingConfigMode = AUTO | NONE | ANY | MODE_UNSPECIFIED

record functionCallingConfig =
  allowedFunctionNames :: "string list option"
  mode :: functionCallingConfigMode

fun mapToolChoiceToGeminiFormat :: "toolChoice \<Rightarrow> functionCallingConfigMode" where
  "mapToolChoiceToGeminiFormat ChoiceAuto = AUTO"
| "mapToolChoiceToGeminiFormat ChoiceNone = NONE"
| "mapToolChoiceToGeminiFormat ChoiceRequired = ANY"
| "mapToolChoiceToGeminiFormat (ChoiceTool n) = ANY"

definition mapGeminiToolConfig :: "toolChoice option \<Rightarrow> functionCallingConfig option" where
  "mapGeminiToolConfig tc =
     (case tc of
        None \<Rightarrow> None
      | Some c \<Rightarrow>
          Some \<lparr> allowedFunctionNames = (case c of ChoiceTool n \<Rightarrow> Some [n] | _ \<Rightarrow> None),
                 mode = mapToolChoiceToGeminiFormat c \<rparr>)"

section \<open>Generation config (gemini-language-model)\<close>

datatype ThinkingLevel = LOW | MEDIUM | HIGH | MINIMAL

text \<open>
  \<open>s.toUpperCase()\<close> on the letters \<open>a\<close> to \<open>z\<close>; every other character of the 8-bit
  character type is left as it is.
\<close>

definition upper_char :: "char \<Rightarrow> char" where
  "upper_char c =
     (case map_of (zip ''abcdefghijklmnopqrstuvwxyz'' ''ABCDEFGHIJKLMNOPQRSTUVWXYZ'') c of
        Some u \<Rightarrow> u
      | None \<Rightarrow> c)"

definition toUpperCase :: "string \<Rightarrow> string" where
  "toUpperCase s = map upper_char s"

definition normalizeThinkingLevel :: "string \<Rightarrow> ThinkingLevel option" where
  "normalizeThinkingLevel level =
     (let normalized = toUpperCase level in
      if normalized = ''LOW'' then Some LOW
      else if normalized = ''MEDIUM'' then Some MEDIUM
      else if normalized = ''HIGH'' then Some HIGH
      else if normalized = ''MINIMAL'' then Some MINIMAL
      else None)"

text \<open>
  A property of an object literal: not there, there with the value \<open>undefined\<close>, or
  there with a value. A spread copies the last two alike.
\<close>

datatype 'a property = Absent | Undefined | Defined 'a

text \<open>\<open>string | ThinkingLevel\<close>\<close>

datatype thinkingLevelInput = LevelString string | LevelEnum ThinkingLevel

record thinkingConfigInput =
  thinkingLevel :: "thinkingLevelInput property"
  thinkingBudget :: "int property"
  includeThoughts :: "bool property"

text \<open>The config handed to the backend: a missing key is \<open>None\<close>.\<close>

record extendedThinkingConfig =
  tc_thinkingLevel :: "ThinkingLevel option"
  tc_thinkingBudget :: "int option"
  tc_includeThoughts :: "bool option"

text \<open>The empty object \<open>{}\<close> of each of the two types.\<close>

definition empty_input :: thinkingConfigInput where
  "empty_input = \<lparr> thinkingLevel = Absent, thinkingBudget = Absent, includeThoughts = Absent \<rparr>"

definition empty_config :: extendedThinkingConfig where
  "empty_config = \<lparr> tc_thinkingLevel = None, tc_thinkingBudget = None, tc_includeThoughts = None \<rparr>"

definition buildThinkingConfig :: "thinkingConfigInput \<Rightarrow> extendedThinkingConfig" where
  "buildThinkingConfig input =
     \<lparr> tc_thinkingLevel =
         (case thinkingLevel input of
            Defined (LevelString s) \<Rightarrow> normalizeThinkingLevel s
          | Defined (LevelEnum l) \<Rightarrow> Some l
          | _ \<Rightarrow> None),
       tc_thinkingBudget = (case thinkingBudget input of Defined b \<Rightarrow> Some b | _ \<Rightarrow> None),
       tc_includeThoughts = (case includeThoughts input of Defined b \<Rightarrow> Some b | _ \<Rightarrow> None) \<rparr>"

text \<open>One property of \<open>{ ...a, ...b }\<close>: the one of \<open>b\<close> when \<open>b\<close> has it.\<close>

definition spread_prop :: "'a property \<Rightarrow> 'a property \<Rightarrow> 'a property" where
  "spread_prop a b = (if b = Absent then a else b)"

text \<open>\<open>{ ...a, ...b }\<close>, where spreading \<open>undefined\<close> adds nothing.\<close>

definition spread_merge ::
  "thinkingConfigInput option \<Rightarrow> thinkingConfigInput option \<Rightarrow> thinkingConfigInput" where
  "spread_merge a b =
     (let x = (case a of None \<Rightarrow> empty_input | Some c \<Rightarrow> c);
          y = (case b of None \<Rightarrow> empty_input | Some c \<Rightarrow> c)
      in \<lparr> thinkingLevel = spread_prop (thinkingLevel x) (thinkingLevel y),
            thinkingBudget = spread_prop (thinkingBudget x) (thinkingBudget y),
            includeThoughts = spread_prop (includeThoughts x) (includeThoughts y) \<rparr>)"

text \<open>
  The validation of the call-time \<open>thinkingLevel\<close>: an unparseable string is removed, and
  what is left is kept only if it still has a key.
\<close>

definition effectiveOptionsThinking :: "thinkingConfigInput option \<Rightarrow> thinkingConfigInput option" where
  "effectiveOptionsThinking optionsThinkingConfig =
     (case optionsThinkingConfig of
        None \<Rightarrow> None
      | Some c \<Rightarrow>
          (case thinkingLevel c of
             Defined (LevelString s) \<Rightarrow>
               (if normalizeThinkingLevel s = None then
                  (if thinkingBudget c \<noteq> Absent \<or> includeThoughts c \<noteq> Absent
                   then Some (c\<lparr> thinkingLevel := Absent \<rparr>) else None)
                else Some c)
           | _ \<Rightarrow> Some c))"

definition mergedThinkingConfig ::
  "thinkingConfigInput option \<Rightarrow> thinkingConfigInput option \<Rightarrow> thinkingConfigInput option" where
  "mergedThinkingConfig settingsThinkingConfig effective =
     (if settingsThinkingConfig \<noteq> None \<or> effective \<noteq> None
      then Some (spread_merge settingsThinkingConfig effective) else None)"

datatype responseFormat = FormatText | FormatJson json

text \<open>The call options the adapter reads. A JSON format carries its schema, \<open>JUndefined\<close> when it has none.\<close>

record callOptions =
  prompt :: "message list"
  responseFormat :: "responseFormat option"
  opt_thinkingConfig :: "thinkingConfigInput option"
  opt_temperature :: "rat option"
  opt_topP :: "rat option"
  opt_topK :: "rat option"
  opt_maxOutputTokens :: "rat option"
  stopSequences :: "string list option"
  toolChoice :: "toolChoice option"

text \<open>The model-level settings the adapter reads.\<close>

record modelSettings =
  set_thinkingConfig :: "thinkingConfigInput option"
  set_temperature :: "rat option"
  set_topP :: "rat option"
  set_topK :: "rat option"
  set_maxOutputTokens :: "rat option"

record generationConfig =
  temperature :: "rat option"
  topP :: "rat option"
  topK :: "rat option"
  maxOutputTokens :: "rat option"
  gc_stopSequences :: "string list option"
  responseMimeType :: string
  responseJsonSchema :: json
  toolConfig :: "functionCallingConfig option"
  thinkingConfig :: "extendedThinkingConfig option"

text \<open>\<open>a ?? b\<close>\<close>

definition nullish :: "'a option \<Rightarrow> 'a option \<Rightarrow> 'a option" where
  "nullish a b = (case a of Some x \<Rightarrow> Some x | None \<Rightarrow> b)"

text \<open>\<open>settings?.f\<close>\<close>

definition setting :: "modelSettings option \<Rightarrow> (modelSettings \<Rightarrow> 'a option) \<Rightarrow> 'a option" where
  "setting settings f = (case settings of None \<Rightarrow> None | Some s \<Rightarrow> f s)"

definition prepareGenerationConfig ::
  "callOptions \<Rightarrow> modelSettings option \<Rightarrow> generationConfig \<times> warning list" where
  "prepareGenerationConfig options settings =
     (let isJsonMode = (case responseFormat options of Some (FormatJson s) \<Rightarrow> True | _ \<Rightarrow> False);
          schema = (case responseFormat options of Some (FormatJson s) \<Rightarrow> s | _ \<Rightarrow> JUndefined);
          hasSchema = (isJsonMode \<and> schema \<noteq> JUndefined);
          warnings =
            (if isJsonMode \<and> \<not> hasSchema
             then [\<lparr> w_type = ''unsupported'', w_feature = ''responseFormat'',
                      w_details = ''JSON response format without a schema is not supported. Treating as plain text. Provide a schema for structured output.'' \<rparr>]
             else []);
          settingsThinkingConfig = setting settings set_thinkingConfig;
          effective = effectiveOptionsThinking (opt_thinkingConfig options);
          merged = mergedThinkingConfig settingsThinkingConfig effective;
          thinking = (case merged of Some m \<Rightarrow> Some (buildThinkingConfig m) | None \<Rightarrow> None)
      in (\<lparr> temperature = nullish (opt_temperature options) (setting settings set_temperature),
             topP = nullish (opt_topP options) (setting settings set_topP),
             topK = nullish (opt_topK options) (setting settings set_topK),
             maxOutputTokens =
               nullish (opt_maxOutputTokens options) (setting settings set_maxOutputTokens),
             gc_stopSequences = stopSequences options,
             responseMimeType = (if hasSchema then ''application/json'' else ''text/plain''),
             responseJsonSchema = (if hasSchema then schema else JUndefined),
             toolConfig = mapGeminiToolConfig (toolChoice options),
             thinkingConfig = thinking \<rparr>,
          warnings))"

section \<open>The two orchestrators (gemini-language-model)\<close>

text \<open>
  What a call meets outside the adapter: whether \<open>initializeGeminiClient\<close> rejects,
  the value of \<open>options.abortSignal?.aborted\<close> at each place the source reads it before
  the chunks (\<open>False\<close> when the caller gave no signal), the state of the UUID counter
  and the clock.
\<close>

record callEnv =
  env_init :: "error option"
  env_aborted_before :: bool
  env_aborted_after :: bool
  env_aborted_at_start :: bool
  env_uuid :: uuid
  env_now :: nat

text \<open>\<open>String(error)\<close> for an \<open>Error\<close> object.\<close>

definition string_of_error :: "error \<Rightarrow> string" where
  "string_of_error e =
     (if err_name e = [] then err_message e
      else if err_message e = [] then err_name e
      else err_name e @ '': '' @ err_message e)"

text \<open>\<open>ensureInitialized\<close>, for the error it throws.\<close>

definition ensureInitialized :: "callEnv \<Rightarrow> error option" where
  "ensureInitialized env =
     (case env_init env of
        None \<Rightarrow> None
      | Some e \<Rightarrow>
          Some (Error ''Error'' (''Failed to initialize Gemini model: '' @ string_of_error e)))"

datatype contentPart =
    ContentText string
  | ContentToolCall uuid string json "string option"

record generateState =
  g_content :: "contentPart list"
  g_hasToolCalls :: bool
  g_next_uuid :: uuid

text \<open>The body of the loop of \<open>doGenerate\<close> over \<open>responseContent.parts\<close>.\<close>

definition push_part :: "generateState \<Rightarrow> part \<Rightarrow> generateState" where
  "push_part st p =
     (if truthy_str (p_text p)
      then st\<lparr> g_content := g_content st @ [ContentText (or_empty (p_text p))] \<rparr>
      else (case p_functionCall p of
              Some fc \<Rightarrow>
                st\<lparr> g_hasToolCalls := True,
                    g_content := g_content st @
                      [ContentToolCall (g_next_uuid st) (or_empty (fc_name fc))
                         (case fc_args fc of
                            None \<Rightarrow> JObj []
                          | Some a \<Rightarrow> (if truthy a then a else JObj []))
                         (if truthy_str (p_thoughtSignature p) then p_thoughtSignature p else None)],
                    g_next_uuid := Suc (g_next_uuid st) \<rparr>
            | None \<Rightarrow> st))"

record generateResult =
  res_content :: "contentPart list"
  res_finishReason :: finishReason
  res_usage :: usage
  res_warnings :: "warning list"
  res_rawSettings :: generationConfig
  res_id :: uuid
  res_timestamp :: nat
  res_modelId :: string

text \<open>\<open>response.usageMetadata?.promptTokenCount || 0\<close> and its sibling.\<close>

definition response_inputTokens :: "generateContentResponse \<Rightarrow> int" where
  "response_inputTokens response =
     (case usageMetadata response of None \<Rightarrow> 0 | Some u \<Rightarrow> or_zero (promptTokenCount u))"

definition response_outputTokens :: "generateContentResponse \<Rightarrow> int" where
  "response_outputTokens response =
     (case usageMetadata response of None \<Rightarrow> 0 | Some u \<Rightarrow> or_zero (candidatesTokenCount u))"

text \<open>
  \<open>doGenerate\<close> from \<open>// Extract the result\<close> to its \<open>return\<close>. \<open>uuid0\<close> is the UUID
  counter after the request id has been drawn.
\<close>

definition generate_result ::
  "string \<Rightarrow> uuid \<Rightarrow> nat \<Rightarrow> generationConfig \<Rightarrow> warning list \<Rightarrow> generateContentResponse
     \<Rightarrow> generateResult" where
  "generate_result modelId uuid0 now generationConfig warnings response =
     (let candidate = first_candidate response;
          st = foldl push_part \<lparr> g_content = [], g_hasToolCalls = False, g_next_uuid = uuid0 \<rparr>
                 (candidate_parts candidate)
      in \<lparr> res_content = g_content st,
            res_finishReason =
              decide_finishReason (g_hasToolCalls st) (candidate_finishReason candidate),
            res_usage = make_usage (response_inputTokens response) (response_outputTokens response),
            res_warnings = warnings,
            res_rawSettings = generationConfig,
            res_id = g_next_uuid st,
            res_timestamp = now,
            res_modelId = modelId \<rparr>)"

text \<open>
  \<open>doGenerate\<close>. \<open>backend\<close> is what \<open>contentGenerator.generateContent\<close> does: it rejects
  with an error or resolves with a response. Every error leaves through
  \<open>mapGeminiError\<close>, which belongs to a module outside this development and is a
  parameter. Mapping the tool declarations throws nothing and only feeds the request.
\<close>

definition doGenerate ::
  "(error \<Rightarrow> error) \<Rightarrow> string \<Rightarrow> modelSettings option \<Rightarrow> callEnv
     \<Rightarrow> error + generateContentResponse \<Rightarrow> callOptions \<Rightarrow> error + generateResult" where
  "doGenerate mapGeminiError modelId settings env backend options =
     (case ensureInitialized env of
        Some e \<Rightarrow> Inl (mapGeminiError e)
      | None \<Rightarrow>
          (case mapPromptToGeminiFormat (prompt options) of
             Inl e \<Rightarrow> Inl (mapGeminiError e)
           | Inr mapped \<Rightarrow>
               (let (generationConfig, warnings) = prepareGenerationConfig options settings in
                if env_aborted_before env then Inl (mapGeminiError abortError)
                else (case backend of
                        Inl e \<Rightarrow> Inl (mapGeminiError e)
                      | Inr response \<Rightarrow>
                          if env_aborted_after env then Inl (mapGeminiError abortError)
                          else Inr (generate_result modelId (Suc (env_uuid env)) (env_now env)
                                      generationConfig warnings response)))))"

record streamResult =
  stream_events :: "streamPart list"
  stream_outcome :: stream_end
  stream_rawSettings :: generationConfig

text \<open>
  \<open>doStream\<close>. \<open>backend\<close> is what \<open>contentGenerator.generateContentStream\<close> does: it
  rejects, or resolves with an iterable whose steps are the given items. The stream's
  \<open>start\<close> callback runs while the stream is constructed. \<open>stream_events\<close> lists what
  the callback handed to \<open>controller.enqueue\<close>, in that order; when the stream is
  errored, it discards those of them that its consumer has not read by then.
\<close>

definition doStream ::
  "(error \<Rightarrow> error) \<Rightarrow> string \<Rightarrow> modelSettings option \<Rightarrow> callEnv
     \<Rightarrow> error + backend_item list \<Rightarrow> callOptions \<Rightarrow> error + streamResult" where
  "doStream mapGeminiError modelId settings env backend options =
     (case ensureInitialized env of
        Some e \<Rightarrow> Inl (mapGeminiError e)
      | None \<Rightarrow>
          (case mapPromptToGeminiFormat (prompt options) of
             Inl e \<Rightarrow> Inl (mapGeminiError e)
           | Inr mapped \<Rightarrow>
               (let (generationConfig, warnings) = prepareGenerationConfig options settings in
                if env_aborted_before env then Inl (mapGeminiError abortError)
                else (case backend of
                        Inl e \<Rightarrow> Inl (mapGeminiError e)
                      | Inr items \<Rightarrow>
                          if env_aborted_after env then Inl (mapGeminiError abortError)
                          else
                            (let (events, outcome) =
                                   stream_start mapGeminiError modelId warnings
                                     (env_aborted_at_start env) (Suc (env_uuid env)) items
                             in Inr \<lparr> stream_events = events, stream_outcome = outcome,
                                       stream_rawSettings = generationConfig \<rparr>)))))"

section \<open>Notions used to state the properties\<close>

text \<open>The usage metadata of the last chunk of a sequence that carried any.\<close>

fun last_usage :: "generateContentResponse list \<Rightarrow> usageMetadata option" where
  "last_usage [] = None"
| "last_usage (c # cs) = (case last_usage cs of Some u \<Rightarrow> Some u | None \<Rightarrow> usageMetadata c)"

text \<open>The usage the adapter reports for given usage metadata.\<close>

definition usage_of :: "usageMetadata option \<Rightarrow> usage" where
  "usage_of um =
     (case um of
        None \<Rightarrow> make_usage 0 0
      | Some u \<Rightarrow> make_usage (or_zero (promptTokenCount u)) (or_zero (candidatesTokenCount u)))"

text \<open>The parts and the finish reason the adapter reads from a chunk or response.\<close>

definition chunk_parts :: "generateContentResponse \<Rightarrow> part list" where
  "chunk_parts c = candidate_parts (first_candidate c)"

definition chunk_reason :: "generateContentResponse \<Rightarrow> string option" where
  "chunk_reason c = candidate_finishReason (first_candidate c)"

text \<open>A chunk carries a terminal signal when its finish reason is a non-empty string.\<close>

definition terminal :: "generateContentResponse \<Rightarrow> bool" where
  "terminal c = truthy_str (chunk_reason c)"

text \<open>A part that is read as a function call: it has one, and no non-empty text.\<close>

definition is_function_call_part :: "part \<Rightarrow> bool" where
  "is_function_call_part p = (\<not> truthy_str (p_text p) \<and> p_functionCall p \<noteq> None)"

definition has_tool_call :: "generateContentResponse list \<Rightarrow> bool" where
  "has_tool_call cs = list_ex (\<lambda>c. list_ex is_function_call_part (chunk_parts c)) cs"

text \<open>The state of the stream after a run of chunks, none of which met an abort.\<close>

definition run_state :: "string \<Rightarrow> streamState \<Rightarrow> arrival list \<Rightarrow> streamState" where
  "run_state modelId st as =
     foldl (\<lambda>s a. process_chunk modelId (arr_now a) s (arr_chunk a)) st as"

definition none_aborted :: "arrival list \<Rightarrow> bool" where
  "none_aborted as = list_all (\<lambda>a. \<not> arr_aborted a) as"

text \<open>The events of a text block and the block id each of them carries.\<close>

fun is_text_start :: "streamPart \<Rightarrow> bool" where
  "is_text_start (TextStart i) = True"
| "is_text_start _ = False"

fun is_text_end :: "streamPart \<Rightarrow> bool" where
  "is_text_end (TextEnd i) = True"
| "is_text_end _ = False"

fun is_finish :: "streamPart \<Rightarrow> bool" where
  "is_finish (Finish fr u) = True"
| "is_finish _ = False"

fun text_event_id :: "streamPart \<Rightarrow> uuid option" where
  "text_event_id (TextStart i) = Some i"
| "text_event_id (TextDelta i t) = Some i"
| "text_event_id (TextEnd i) = Some i"
| "text_event_id _ = None"

fun terminal_item :: "backend_item \<Rightarrow> bool" where
  "terminal_item (Chunk a) = terminal (arr_chunk a)"
| "terminal_item (Raise e) = False"

text \<open>
  A call gets as far as the backend and past the two abort checks around it: the client
  initialises, the prompt maps without an error, and no abort is seen before or right
  after the backend call.
\<close>

definition call_proceeds :: "callEnv \<Rightarrow> callOptions \<Rightarrow> bool" where
  "call_proceeds env options =
     (env_init env = None \<and> \<not> isl (mapPromptToGeminiFormat (prompt options))
      \<and> \<not> env_aborted_before env \<and> \<not> env_aborted_after env)"

section \<open>Sample inputs, after the mocks of the repository's tests\<close>

definition test_options :: callOptions where
  "test_options =
     \<lparr> prompt = [UserMessage [TextPart ''Hello'']], responseFormat = None,
       opt_thinkingConfig = None, opt_temperature = None, opt_topP = None, opt_topK = None,
       opt_maxOutputTokens = None, stopSequences = None, toolChoice = None \<rparr>"

definition test_env :: callEnv where
  "test_env =
     \<lparr> env_init = None, env_aborted_before = False, env_aborted_after = False,
       env_aborted_at_start = False, env_uuid = 0, env_now = 0 \<rparr>"

definition test_config :: generationConfig where
  "test_config =
     \<lparr> temperature = None, topP = None, topK = None, maxOutputTokens = None,
       gc_stopSequences = None, responseMimeType = ''text/plain'',
       responseJsonSchema = JUndefined, toolConfig = None, thinkingConfig = None \<rparr>"

text \<open>A response or chunk with one candidate holding the given parts.\<close>

definition test_chunk ::
  "part list \<Rightarrow> string option \<Rightarrow> usageMetadata option \<Rightarrow> generateContentResponse" where
  "test_chunk ps reason um =
     \<lparr> candidates = Some [\<lparr> cand_content = Some \<lparr> c_role = Some ''model'', c_parts = Some ps \<rparr>,
                            cand_finishReason = reason \<rparr>],
       usageMetadata = um \<rparr>"

definition call_part :: "string \<Rightarrow> part" where
  "call_part n =
     \<lparr> p_text = None, p_inlineData = None,
       p_functionCall = Some \<lparr> fc_name = Some n, fc_args = None \<rparr>,
       p_functionResponse = None, p_thoughtSignature = None \<rparr>"

text \<open>A chunk that arrives at the given time while no abort is signalled, and one that arrives after the abort.\<close>

definition arrives :: "nat \<Rightarrow> generateContentResponse \<Rightarrow> arrival" where
  "arrives t c = \<lparr> arr_aborted = False, arr_now = t, arr_chunk = c \<rparr>"

definition arrives_aborted :: "nat \<Rightarrow> generateContentResponse \<Rightarrow> arrival" where
  "arrives_aborted t c = \<lparr> arr_aborted = True, arr_now = t, arr_chunk = c \<rparr>"

section \<open>The text-block invariant of the stream state\<close>

text \<open>
  While no id is assigned, no event of a text block has been emitted; once an id is
  assigned, one text-start has been emitted and every event of a text block carries it.
\<close>

definition text_inv :: "streamState \<Rightarrow> bool" where
  "text_inv st =
     (case textPartId st of
        None \<Rightarrow> list_all (\<lambda>e. text_event_id e = None) (enqueued st)
      | Some i \<Rightarrow>
          length (filter is_text_start (enqueued st)) = 1 \<and>
          list_all (\<lambda>e. text_event_id e = None \<or> text_event_id e = Some i) (enqueued st))"

definition text_ends :: "streamState \<Rightarrow> nat" where
  "text_ends st = length (filter is_text_end (enqueued st))"

section \<open>The statements of the schema cleaner, one by one\<close>

text \<open>
  Each statement of \<open>cleanJsonSchema\<close> after the spread copy as a function on the
  property list, with the recursive call as a parameter.
\<close>

definition delete_removed :: "(string \<times> json) list \<Rightarrow> (string \<times> json) list" where
  "delete_removed kv =
     AList.delete ''definitions'' (AList.delete ''$defs''
       (AList.delete ''$ref'' (AList.delete ''$schema'' kv)))"

definition clean_properties ::
  "(json \<Rightarrow> json) \<Rightarrow> (string \<times> json) list \<Rightarrow> (string \<times> json) list" where
  "clean_properties f c =
     (case own_entries (get_prop c ''properties'') of
        Some props \<Rightarrow>
          AList.update ''properties''
            (JObj (map (\<lambda>(key, v). (key, f v)) (filter (\<lambda>(key, v). key \<noteq> ''__proto__'') props))) c
      | None \<Rightarrow> c)"

definition clean_items ::
  "(json \<Rightarrow> json) \<Rightarrow> (string \<times> json) list \<Rightarrow> (string \<times> json) list" where
  "clean_items f c =
     (if truthy (get_prop c ''items'') then AList.update ''items'' (f (get_prop c ''items'')) c
      else c)"

definition clean_additional ::
  "(json \<Rightarrow> json) \<Rightarrow> (string \<times> json) list \<Rightarrow> (string \<times> json) list" where
  "clean_additional f c =
     (if own_entries (get_prop c ''additionalProperties'') \<noteq> None
      then AList.update ''additionalProperties'' (f (get_prop c ''additionalProperties'')) c
      else c)"

definition clean_array ::
  "string \<Rightarrow> (json \<Rightarrow> json) \<Rightarrow> (string \<times> json) list \<Rightarrow> (string \<times> json) list" where
  "clean_array key f c =
     (case get_prop c key of
        JArr arrayProp \<Rightarrow> AList.update key (JArr (map f arrayProp)) c
      | _ \<Rightarrow> c)"

definition default_type :: "(string \<times> json) list \<Rightarrow> (string \<times> json) list" where
  "default_type c =
     (if truthy (get_prop c ''properties'') \<and> get_prop c ''type'' = JUndefined
      then AList.update ''type'' (JStr ''object'') c
      else c)"

definition clean_object ::
  "(json \<Rightarrow> json) \<Rightarrow> (string \<times> json) list \<Rightarrow> (string \<times> json) list" where
  "clean_object f kv =
     default_type (clean_array ''oneOf'' f (clean_array ''anyOf'' f (clean_array ''allOf'' f
       (clean_additional f (clean_items f (clean_properties f (delete_removed kv)))))))"

section \<open>Streaming: events handed to the controller\<close>

lemma enqueue_simps [simp]:
  "enqueued (enqueue e st) = enqueued st @ [e]"
  "textPartId (enqueue e st) = textPartId st"
  "hasToolCalls (enqueue e st) = hasToolCalls st"
  "next_uuid (enqueue e st) = next_uuid st"
  "totalInputTokens (enqueue e st) = totalInputTokens st"
  "totalOutputTokens (enqueue e st) = totalOutputTokens st"
  by (simp_all add: enqueue_def)

section \<open>Generation config: response format and thinking config\<close>

lemmas config_defs =
  prepareGenerationConfig_def Let_def setting_def nullish_def effectiveOptionsThinking_def
  mergedThinkingConfig_def mapGeminiToolConfig_def spread_merge_def spread_prop_def
  buildThinkingConfig_def normalizeThinkingLevel_def toUpperCase_def upper_char_def
  empty_input_def empty_config_def

text \<open>
  C4. A JSON response format without a schema gives the plain-text content type, no
  response schema, and a warning list that consists of one warning of type
  "unsupported" for the feature "responseFormat". A JSON response format with a schema
  gives no warning, the content type application/json, and the schema itself as the
  response JSON schema. No response format, or a format that is not JSON, gives the
  plain-text content type and no warning.
\<close>

theorem response_format_policy:
  "(responseFormat options = Some (FormatJson JUndefined) \<longrightarrow>
      responseMimeType (fst (prepareGenerationConfig options settings)) = ''text/plain'' \<and>
      responseJsonSchema (fst (prepareGenerationConfig options settings)) = JUndefined \<and>
      (\<exists>w. snd (prepareGenerationConfig options settings) = [w] \<and>
           w_type w = ''unsupported'' \<and> w_feature w = ''responseFormat'')) \<and>
   (\<forall>schema. responseFormat options = Some (FormatJson schema) \<and> schema \<noteq> JUndefined \<longrightarrow>
      snd (prepareGenerationConfig options settings) = [] \<and>
      responseMimeType (fst (prepareGenerationConfig options settings)) = ''application/json'' \<and>
      responseJsonSchema (fst (prepareGenerationConfig options settings)) = schema) \<and>
   (responseFormat options = None \<or> responseFormat options = Some FormatText \<longrightarrow>
      responseMimeType (fst (prepareGenerationConfig options settings)) = ''text/plain'' \<and>
      snd (prepareGenerationConfig options settings) = [])"
  by (auto simp: prepareGenerationConfig_def Let_def)

theorem response_format_policy_witness:
  "snd (prepareGenerationConfig
          \<lparr> prompt = [], responseFormat = Some (FormatJson JUndefined), opt_thinkingConfig = None,
            opt_temperature = None, opt_topP = None, opt_topK = None,
            opt_maxOutputTokens = None, stopSequences = None, toolChoice = None \<rparr> None)
     = [\<lparr> w_type = ''unsupported'', w_feature = ''responseFormat'',
          w_details = ''JSON response format without a schema is not supported. Treating as plain text. Provide a schema for structured output.'' \<rparr>]
   \<and> responseMimeType (fst (prepareGenerationConfig
          \<lparr> prompt = [], responseFormat = Some (FormatJson JUndefined), opt_thinkingConfig = None,
            opt_temperature = None, opt_topP = None, opt_topK = None,
            opt_maxOutputTokens = None, stopSequences = None, toolChoice = None \<rparr> None))
     = ''text/plain''
   \<and> prepareGenerationConfig
          \<lparr> prompt = [], responseFormat = Some (FormatJson (JObj [(''type'', JStr ''object'')])),
            opt_thinkingConfig = None, opt_temperature = None, opt_topP = None, opt_topK = None,
            opt_maxOutputTokens = None, stopSequences = None, toolChoice = None \<rparr> None
     = (\<lparr> temperature = None, topP = None, topK = None, maxOutputTokens = None,
          gc_stopSequences = None, responseMimeType = ''application/json'',
          responseJsonSchema = JObj [(''type'', JStr ''object'')], toolConfig = None,
          thinkingConfig = None \<rparr>, [])
   \<and> prepareGenerationConfig
          \<lparr> prompt = [], responseFormat = Some FormatText,
            opt_thinkingConfig = None, opt_temperature = None, opt_topP = None, opt_topK = None,
            opt_maxOutputTokens = None, stopSequences = None, toolChoice = None \<rparr> None
     = (\<lparr> temperature = None, topP = None, topK = None, maxOutputTokens = None,
          gc_stopSequences = None, responseMimeType = ''text/plain'',
          responseJsonSchema = JUndefined, toolConfig = None, thinkingConfig = None \<rparr>, [])"
  using
    response_format_policy[of
      "\<lparr> prompt = [], responseFormat = Some (FormatJson JUndefined), opt_thinkingConfig = None,
         opt_temperature = None, opt_topP = None, opt_topK = None,
         opt_maxOutputTokens = None, stopSequences = None, toolChoice = None \<rparr>" None]
    response_format_policy[of
      "\<lparr> prompt = [], responseFormat = Some (FormatJson (JObj [(''type'', JStr ''object'')])),
         opt_thinkingConfig = None, opt_temperature = None, opt_topP = None, opt_topK = None,
         opt_maxOutputTokens = None, stopSequences = None, toolChoice = None \<rparr>" None]
    response_format_policy[of
      "\<lparr> prompt = [], responseFormat = Some FormatText,
         opt_thinkingConfig = None, opt_temperature = None, opt_topP = None, opt_topK = None,
         opt_maxOutputTokens = None, stopSequences = None, toolChoice = None \<rparr>" None]
  by (simp add: config_defs)

text \<open>
  C5. With the model-level default thinking level "high", written as a string or as the
  enum member, and the call-time level "hihg", the thinking config handed to the backend
  is exactly the level HIGH: the unparseable level is taken out of the override and the
  default survives. The rest of the override is kept: a call-time budget given next to
  the bad level still reaches the backend.
\<close>

theorem invalid_level_keeps_default:
  "thinkingConfig (fst (prepareGenerationConfig
      (options\<lparr> opt_thinkingConfig :=
         Some \<lparr> thinkingLevel = Defined (LevelString ''hihg''), thinkingBudget = Absent,
                includeThoughts = Absent \<rparr> \<rparr>)
      (Some (settings\<lparr> set_thinkingConfig :=
         Some \<lparr> thinkingLevel = Defined (LevelString ''high''), thinkingBudget = Absent,
                includeThoughts = Absent \<rparr> \<rparr>))))
     = Some \<lparr> tc_thinkingLevel = Some HIGH, tc_thinkingBudget = None, tc_includeThoughts = None \<rparr>
   \<and> thinkingConfig (fst (prepareGenerationConfig
      (options\<lparr> opt_thinkingConfig :=
         Some \<lparr> thinkingLevel = Defined (LevelString ''hihg''), thinkingBudget = Absent,
                includeThoughts = Absent \<rparr> \<rparr>)
      (Some (settings\<lparr> set_thinkingConfig :=
         Some \<lparr> thinkingLevel = Defined (LevelEnum HIGH), thinkingBudget = Absent,
                includeThoughts = Absent \<rparr> \<rparr>))))
     = Some \<lparr> tc_thinkingLevel = Some HIGH, tc_thinkingBudget = None, tc_includeThoughts = None \<rparr>
   \<and> thinkingConfig (fst (prepareGenerationConfig
      (options\<lparr> opt_thinkingConfig :=
         Some \<lparr> thinkingLevel = Defined (LevelString ''hihg''), thinkingBudget = Defined b,
                includeThoughts = Absent \<rparr> \<rparr>)
      (Some (settings\<lparr> set_thinkingConfig :=
         Some \<lparr> thinkingLevel = Defined (LevelEnum HIGH), thinkingBudget = Absent,
                includeThoughts = Absent \<rparr> \<rparr>))))
     = Some \<lparr> tc_thinkingLevel = Some HIGH, tc_thinkingBudget = Some b, tc_includeThoughts = None \<rparr>"
  by (simp add: config_defs)

text \<open>
  C6, evaluated where it fails. A call-time thinking config that is the empty object,
  with no model-level settings, is merged and built into the empty object, and that
  empty object is what the generation config carries. The same happens for an empty
  model-level config next to an override that holds only an unparseable level.
\<close>

theorem empty_thinking_config_emitted:
  "thinkingConfig (fst (prepareGenerationConfig
      \<lparr> prompt = [], responseFormat = None, opt_thinkingConfig = Some empty_input,
        opt_temperature = None, opt_topP = None, opt_topK = None,
        opt_maxOutputTokens = None, stopSequences = None, toolChoice = None \<rparr> None))
     = Some empty_config
   \<and> thinkingConfig (fst (prepareGenerationConfig
      \<lparr> prompt = [], responseFormat = None,
        opt_thinkingConfig = Some \<lparr> thinkingLevel = Defined (LevelString ''hihg''),
                                    thinkingBudget = Absent, includeThoughts = Absent \<rparr>,
        opt_temperature = None, opt_topP = None, opt_topK = None,
        opt_maxOutputTokens = None, stopSequences = None, toolChoice = None \<rparr>
      (Some \<lparr> set_thinkingConfig = Some empty_input, set_temperature = None, set_topP = None,
              set_topK = None, set_maxOutputTokens = None \<rparr>)))
     = Some empty_config"
  by (simp add: config_defs)

section \<open>Streaming: what a run of chunks does to the state\<close>

lemma emit_text_fields [simp]:
  "hasToolCalls (emit_text t st) = hasToolCalls st"
  "totalInputTokens (emit_text t st) = totalInputTokens st"
  "totalOutputTokens (emit_text t st) = totalOutputTokens st"
  by (simp_all add: emit_text_def split: option.splits)

lemma emit_tool_call_fields [simp]:
  "hasToolCalls (emit_tool_call fc sig st) = True"
  "textPartId (emit_tool_call fc sig st) = textPartId st"
  "totalInputTokens (emit_tool_call fc sig st) = totalInputTokens st"
  "totalOutputTokens (emit_tool_call fc sig st) = totalOutputTokens st"
  by (simp_all add: emit_tool_call_def)

lemma process_part_fields:
  "hasToolCalls (process_part st p) = (hasToolCalls st \<or> is_function_call_part p)"
  "totalInputTokens (process_part st p) = totalInputTokens st"
  "totalOutputTokens (process_part st p) = totalOutputTokens st"
  by (simp_all add: process_part_def is_function_call_part_def split: option.splits)

lemma foldl_process_part_fields:
  "hasToolCalls (foldl process_part st ps) = (hasToolCalls st \<or> list_ex is_function_call_part ps)"
  "totalInputTokens (foldl process_part st ps) = totalInputTokens st"
  "totalOutputTokens (foldl process_part st ps) = totalOutputTokens st"
  by (induction ps arbitrary: st) (auto simp: process_part_fields)

lemma update_usage_fields [simp]:
  "hasToolCalls (update_usage um st) = hasToolCalls st"
  "textPartId (update_usage um st) = textPartId st"
  "enqueued (update_usage um st) = enqueued st"
  "next_uuid (update_usage um st) = next_uuid st"
  "totalInputTokens (update_usage um st) =
     (case um of None \<Rightarrow> totalInputTokens st | Some u \<Rightarrow> or_zero (promptTokenCount u))"
  "totalOutputTokens (update_usage um st) =
     (case um of None \<Rightarrow> totalOutputTokens st | Some u \<Rightarrow> or_zero (candidatesTokenCount u))"
  by (simp_all add: update_usage_def split: option.splits)

lemma finish_chunk_fields [simp]:
  "hasToolCalls (finish_chunk modelId now r st) = hasToolCalls st"
  "textPartId (finish_chunk modelId now r st) = textPartId st"
  "totalInputTokens (finish_chunk modelId now r st) = totalInputTokens st"
  "totalOutputTokens (finish_chunk modelId now r st) = totalOutputTokens st"
  by (simp_all add: finish_chunk_def Let_def split: option.splits)

lemma finish_chunk_last:
  "truthy_str r \<Longrightarrow>
   last (enqueued (finish_chunk modelId now r st)) =
     Finish (decide_finishReason (hasToolCalls st) r)
            (make_usage (totalInputTokens st) (totalOutputTokens st))"
  by (simp add: finish_chunk_def Let_def split: option.splits)

lemma process_chunk_fields:
  "hasToolCalls (process_chunk modelId now st c) =
     (hasToolCalls st \<or> list_ex is_function_call_part (chunk_parts c))"
  "totalInputTokens (process_chunk modelId now st c) =
     (case usageMetadata c of None \<Rightarrow> totalInputTokens st | Some u \<Rightarrow> or_zero (promptTokenCount u))"
  "totalOutputTokens (process_chunk modelId now st c) =
     (case usageMetadata c of None \<Rightarrow> totalOutputTokens st
      | Some u \<Rightarrow> or_zero (candidatesTokenCount u))"
  by (simp_all add: process_chunk_def Let_def chunk_parts_def foldl_process_part_fields)

lemma process_chunk_last:
  "terminal c \<Longrightarrow>
   last (enqueued (process_chunk modelId now st c)) =
     Finish (decide_finishReason (hasToolCalls (process_chunk modelId now st c)) (chunk_reason c))
            (make_usage (totalInputTokens (process_chunk modelId now st c))
                        (totalOutputTokens (process_chunk modelId now st c)))"
  unfolding terminal_def chunk_reason_def
  by (simp add: process_chunk_def Let_def finish_chunk_last)

lemma run_state_snoc:
  "run_state modelId st (as @ [a]) =
     process_chunk modelId (arr_now a) (run_state modelId st as) (arr_chunk a)"
  by (simp add: run_state_def)

lemma run_state_hasToolCalls:
  "hasToolCalls (run_state modelId st as) = (hasToolCalls st \<or> has_tool_call (map arr_chunk as))"
  by (induction as rule: rev_induct)
     (auto simp: run_state_snoc process_chunk_fields has_tool_call_def run_state_def)

lemma last_usage_snoc:
  "last_usage (cs @ [c]) = (case usageMetadata c of Some u \<Rightarrow> Some u | None \<Rightarrow> last_usage cs)"
  by (induction cs) (auto split: option.splits)

lemma run_state_totals:
  "totalInputTokens (run_state modelId st as) =
     (case last_usage (map arr_chunk as) of
        None \<Rightarrow> totalInputTokens st | Some u \<Rightarrow> or_zero (promptTokenCount u))"
  "totalOutputTokens (run_state modelId st as) =
     (case last_usage (map arr_chunk as) of
        None \<Rightarrow> totalOutputTokens st | Some u \<Rightarrow> or_zero (candidatesTokenCount u))"
proof (induction as rule: rev_induct)
  case Nil
  { case 1 show ?case by (simp add: run_state_def) }
  { case 2 show ?case by (simp add: run_state_def) }
next
  case (snoc a as)
  { case 1 show ?case using snoc(1)
      by (simp add: run_state_snoc process_chunk_fields last_usage_snoc split: option.splits) }
  { case 2 show ?case using snoc(2)
      by (simp add: run_state_snoc process_chunk_fields last_usage_snoc split: option.splits) }
qed

lemma run_chunks_none_aborted:
  "none_aborted as \<Longrightarrow>
   run_chunks mapGeminiError modelId st (map Chunk as) = (run_state modelId st as, Closed)"
  by (induction as arbitrary: st) (simp_all add: none_aborted_def run_state_def)

text \<open>
  The last event of a stream whose chunks met no abort and whose last chunk carries a
  terminal signal is the finish event, decided from every chunk up to that one.
\<close>

lemma stream_finish_event:
  assumes "none_aborted (as @ [a])" and "terminal (arr_chunk a)"
  shows "stream_start mapGeminiError modelId ws False uuid0 (map Chunk (as @ [a])) =
           (enqueued (run_state modelId
              (enqueue (StreamStart ws)
                 \<lparr> totalInputTokens = 0, totalOutputTokens = 0, textPartId = None,
                   hasToolCalls = False, enqueued = [], next_uuid = uuid0 \<rparr>) (as @ [a])), Closed)"
    and "last (fst (stream_start mapGeminiError modelId ws False uuid0 (map Chunk (as @ [a])))) =
           Finish (decide_finishReason (has_tool_call (map arr_chunk (as @ [a])))
                     (chunk_reason (arr_chunk a)))
                  (usage_of (last_usage (map arr_chunk (as @ [a]))))"
proof -
  let ?st0 = "enqueue (StreamStart ws)
                 \<lparr> totalInputTokens = 0, totalOutputTokens = 0, textPartId = None,
                   hasToolCalls = False, enqueued = [], next_uuid = uuid0 \<rparr>"
  show run: "stream_start mapGeminiError modelId ws False uuid0 (map Chunk (as @ [a])) =
               (enqueued (run_state modelId ?st0 (as @ [a])), Closed)"
    using run_chunks_none_aborted[OF assms(1), of mapGeminiError modelId ?st0]
    by (simp add: stream_start_def Let_def)
  have "last (enqueued (run_state modelId ?st0 (as @ [a]))) =
          Finish (decide_finishReason (hasToolCalls (run_state modelId ?st0 (as @ [a])))
                    (chunk_reason (arr_chunk a)))
                 (make_usage (totalInputTokens (run_state modelId ?st0 (as @ [a])))
                             (totalOutputTokens (run_state modelId ?st0 (as @ [a]))))"
    using process_chunk_last[OF assms(2)] by (simp only: run_state_snoc)
  moreover have "hasToolCalls (run_state modelId ?st0 (as @ [a])) =
                   has_tool_call (map arr_chunk (as @ [a]))"
    by (simp only: run_state_hasToolCalls) simp
  moreover have "make_usage (totalInputTokens (run_state modelId ?st0 (as @ [a])))
                            (totalOutputTokens (run_state modelId ?st0 (as @ [a])))
                 = usage_of (last_usage (map arr_chunk (as @ [a])))"
    by (simp only: run_state_totals) (simp add: usage_of_def split: option.splits)
  ultimately show "last (fst (stream_start mapGeminiError modelId ws False uuid0
                                (map Chunk (as @ [a])))) =
           Finish (decide_finishReason (has_tool_call (map arr_chunk (as @ [a])))
                     (chunk_reason (arr_chunk a)))
                  (usage_of (last_usage (map arr_chunk (as @ [a]))))"
    using run by simp
qed

section \<open>Streaming: the two-chunk text stream\<close>

text \<open>
  C1. A streamed request that initialises, maps its prompt and is never cancelled, and
  whose backend delivers a first chunk holding only the text "Hello" and a second chunk
  holding the text ", world!" with a terminal finish reason, emits exactly stream-start,
  text-start, the two text-deltas in arrival order, text-end, response-metadata and
  finish, with one block id throughout, and then closes. The input and output totals
  of the finish event are the prompt and candidate token counts of the second chunk's
  usage metadata when it has any, else those of the first chunk's; the first chunk's
  counts are replaced, not added to.
\<close>

theorem stream_two_chunks:
  assumes init: "env_init env = None"
    and prompt_ok: "mapPromptToGeminiFormat (prompt options) = Inr mapped"
    and no_abort: "\<not> env_aborted_before env" "\<not> env_aborted_after env"
                  "\<not> env_aborted_at_start env" "\<not> arr_aborted a1" "\<not> arr_aborted a2"
    and c1: "candidate_parts (first_candidate (arr_chunk a1)) = [p1]" "p_text p1 = Some ''Hello''"
            "\<not> truthy_str (candidate_finishReason (first_candidate (arr_chunk a1)))"
    and c2: "candidate_parts (first_candidate (arr_chunk a2)) = [p2]" "p_text p2 = Some '', world!''"
            "candidate_finishReason (first_candidate (arr_chunk a2)) = Some r" "r \<noteq> []"
  shows "doStream mapGeminiError modelId settings env (Inr [Chunk a1, Chunk a2]) options =
           Inr \<lparr> stream_events =
                   [StreamStart (snd (prepareGenerationConfig options settings)),
                    TextStart (Suc (env_uuid env)),
                    TextDelta (Suc (env_uuid env)) ''Hello'',
                    TextDelta (Suc (env_uuid env)) '', world!'',
                    TextEnd (Suc (env_uuid env)),
                    ResponseMetadata (Suc (Suc (env_uuid env))) (arr_now a2) modelId,
                    Finish (mapGeminiFinishReason (Some r))
                      \<lparr> u_inputTokens =
                          \<lparr> in_total = Some
                              (case usageMetadata (arr_chunk a2) of
                                 Some u \<Rightarrow> (case promptTokenCount u of Some n \<Rightarrow> n | None \<Rightarrow> 0)
                               | None \<Rightarrow>
                                   (case usageMetadata (arr_chunk a1) of
                                      Some u \<Rightarrow>
                                        (case promptTokenCount u of Some n \<Rightarrow> n | None \<Rightarrow> 0)
                                    | None \<Rightarrow> 0)),
                            noCache = None, cacheRead = None, cacheWrite = None \<rparr>,
                        u_outputTokens =
                          \<lparr> out_total = Some
                              (case usageMetadata (arr_chunk a2) of
                                 Some u \<Rightarrow>
                                   (case candidatesTokenCount u of Some n \<Rightarrow> n | None \<Rightarrow> 0)
                               | None \<Rightarrow>
                                   (case usageMetadata (arr_chunk a1) of
                                      Some u \<Rightarrow>
                                        (case candidatesTokenCount u of Some n \<Rightarrow> n | None \<Rightarrow> 0)
                                    | None \<Rightarrow> 0)),
                            out_text = None, reasoning = None \<rparr> \<rparr>],
                 stream_outcome = Closed,
                 stream_rawSettings = fst (prepareGenerationConfig options settings) \<rparr>"
proof -
  let ?ws = "snd (prepareGenerationConfig options settings)"
  let ?u = "Suc (env_uuid env)"
  let ?st0 = "enqueue (StreamStart ?ws)
                \<lparr> totalInputTokens = 0, totalOutputTokens = 0, textPartId = None,
                  hasToolCalls = False, enqueued = [], next_uuid = ?u \<rparr>"
  let ?st1 = "process_chunk modelId (arr_now a1) ?st0 (arr_chunk a1)"
  let ?st2 = "process_chunk modelId (arr_now a2) ?st1 (arr_chunk a2)"
  have s1: "enqueued ?st1 = [StreamStart ?ws, TextStart ?u, TextDelta ?u ''Hello'']"
           "textPartId ?st1 = Some ?u" "hasToolCalls ?st1 = False" "next_uuid ?st1 = Suc ?u"
           "totalInputTokens ?st1 =
              (case usageMetadata (arr_chunk a1) of
                 None \<Rightarrow> 0 | Some u \<Rightarrow> or_zero (promptTokenCount u))"
           "totalOutputTokens ?st1 =
              (case usageMetadata (arr_chunk a1) of
                 None \<Rightarrow> 0 | Some u \<Rightarrow> or_zero (candidatesTokenCount u))"
    using c1
    by (simp_all add: process_chunk_def Let_def update_usage_def process_part_def emit_text_def
          finish_chunk_def split: option.splits)
  let ?usage = "make_usage (totalInputTokens ?st2) (totalOutputTokens ?st2)"
  have tot: "totalInputTokens ?st2 =
               (case usageMetadata (arr_chunk a2) of
                  Some u \<Rightarrow> or_zero (promptTokenCount u)
                | None \<Rightarrow> totalInputTokens ?st1)"
            "totalOutputTokens ?st2 =
               (case usageMetadata (arr_chunk a2) of
                  Some u \<Rightarrow> or_zero (candidatesTokenCount u)
                | None \<Rightarrow> totalOutputTokens ?st1)"
    by (simp_all only: process_chunk_fields)
  have or_zero_case: "or_zero x = (case x of Some n \<Rightarrow> n | None \<Rightarrow> 0)" for x
    by (cases x) simp_all
  have s2: "enqueued ?st2 =
      [StreamStart ?ws, TextStart ?u, TextDelta ?u ''Hello'', TextDelta ?u '', world!'',
       TextEnd ?u, ResponseMetadata (Suc ?u) (arr_now a2) modelId,
       Finish (mapGeminiFinishReason (Some r)) ?usage]"
    using c2 s1
    by (simp add: process_chunk_def[of _ _ ?st1] Let_def update_usage_def process_part_def
          emit_text_def finish_chunk_def decide_finishReason_def
          split: option.splits)
  have us: "?usage =
      \<lparr> u_inputTokens =
          \<lparr> in_total = Some
              (case usageMetadata (arr_chunk a2) of
                 Some u \<Rightarrow> (case promptTokenCount u of Some n \<Rightarrow> n | None \<Rightarrow> 0)
               | None \<Rightarrow>
                   (case usageMetadata (arr_chunk a1) of
                      Some u \<Rightarrow> (case promptTokenCount u of Some n \<Rightarrow> n | None \<Rightarrow> 0)
                    | None \<Rightarrow> 0)),
            noCache = None, cacheRead = None, cacheWrite = None \<rparr>,
        u_outputTokens =
          \<lparr> out_total = Some
              (case usageMetadata (arr_chunk a2) of
                 Some u \<Rightarrow> (case candidatesTokenCount u of Some n \<Rightarrow> n | None \<Rightarrow> 0)
               | None \<Rightarrow>
                   (case usageMetadata (arr_chunk a1) of
                      Some u \<Rightarrow> (case candidatesTokenCount u of Some n \<Rightarrow> n | None \<Rightarrow> 0)
                    | None \<Rightarrow> 0)),
            out_text = None, reasoning = None \<rparr> \<rparr>"
    by (simp add: make_usage_def tot s1 or_zero_case split: option.splits)
  have "stream_start mapGeminiError modelId ?ws (env_aborted_at_start env) ?u [Chunk a1, Chunk a2]
          = (enqueued ?st2, Closed)"
    using no_abort by (simp add: stream_start_def Let_def)
  with s2 us show ?thesis
    using init prompt_ok no_abort
    by (simp add: doStream_def ensureInitialized_def case_prod_beta)
qed

theorem stream_two_chunks_witness:
  "doStream (\<lambda>e. e) ''gemini-2.5-pro'' None
     \<lparr> env_init = None, env_aborted_before = False, env_aborted_after = False,
       env_aborted_at_start = False, env_uuid = 0, env_now = 0 \<rparr>
     (Inr [Chunk \<lparr> arr_aborted = False, arr_now = 1,
         arr_chunk = \<lparr> candidates = Some [\<lparr> cand_content = Some \<lparr> c_role = Some ''model'',
              c_parts = Some [\<lparr> p_text = Some ''Hello'', p_inlineData = None, p_functionCall = None,
                                p_functionResponse = None, p_thoughtSignature = None \<rparr>] \<rparr>,
              cand_finishReason = None \<rparr>], usageMetadata = None \<rparr> \<rparr>,
           Chunk \<lparr> arr_aborted = False, arr_now = 2,
         arr_chunk = \<lparr> candidates = Some [\<lparr> cand_content = Some \<lparr> c_role = Some ''model'',
              c_parts = Some [\<lparr> p_text = Some '', world!'', p_inlineData = None, p_functionCall = None,
                                p_functionResponse = None, p_thoughtSignature = None \<rparr>] \<rparr>,
              cand_finishReason = Some ''STOP'' \<rparr>],
            usageMetadata = Some \<lparr> promptTokenCount = Some 10, candidatesTokenCount = Some 20 \<rparr> \<rparr> \<rparr>])
     \<lparr> prompt = [UserMessage [TextPart ''Say hello'']], responseFormat = None,
       opt_thinkingConfig = None, opt_temperature = None, opt_topP = None, opt_topK = None,
       opt_maxOutputTokens = None, stopSequences = None, toolChoice = None \<rparr>
   = Inr \<lparr> stream_events =
             [StreamStart [], TextStart 1, TextDelta 1 ''Hello'', TextDelta 1 '', world!'',
              TextEnd 1, ResponseMetadata 2 2 ''gemini-2.5-pro'',
              Finish \<lparr> fr_unified = Stop, fr_raw = Some ''STOP'' \<rparr>
                \<lparr> u_inputTokens = \<lparr> in_total = Some 10, noCache = None, cacheRead = None,
                                     cacheWrite = None \<rparr>,
                  u_outputTokens = \<lparr> out_total = Some 20, out_text = None,
                                      reasoning = None \<rparr> \<rparr>],
           stream_outcome = Closed,
           stream_rawSettings =
             \<lparr> temperature = None, topP = None, topK = None, maxOutputTokens = None,
               gc_stopSequences = None, responseMimeType = ''text/plain'',
               responseJsonSchema = JUndefined, toolConfig = None, thinkingConfig = None \<rparr> \<rparr>"
  using stream_two_chunks[of
     "\<lparr> env_init = None, env_aborted_before = False, env_aborted_after = False,
       env_aborted_at_start = False, env_uuid = 0, env_now = 0 \<rparr>"
     "\<lparr> prompt = [UserMessage [TextPart ''Say hello'']], responseFormat = None,
       opt_thinkingConfig = None, opt_temperature = None, opt_topP = None, opt_topK = None,
       opt_maxOutputTokens = None, stopSequences = None, toolChoice = None \<rparr>"
     "\<lparr> contents = [\<lparr> c_role = Some ''user'', c_parts = Some [text_part ''Say hello''] \<rparr>],
        systemInstruction = None \<rparr>"
     "\<lparr> arr_aborted = False, arr_now = 1,
         arr_chunk = \<lparr> candidates = Some [\<lparr> cand_content = Some \<lparr> c_role = Some ''model'',
              c_parts = Some [\<lparr> p_text = Some ''Hello'', p_inlineData = None, p_functionCall = None,
                                p_functionResponse = None, p_thoughtSignature = None \<rparr>] \<rparr>,
              cand_finishReason = None \<rparr>], usageMetadata = None \<rparr> \<rparr>"
     "\<lparr> arr_aborted = False, arr_now = 2,
         arr_chunk = \<lparr> candidates = Some [\<lparr> cand_content = Some \<lparr> c_role = Some ''model'',
              c_parts = Some [\<lparr> p_text = Some '', world!'', p_inlineData = None, p_functionCall = None,
                                p_functionResponse = None, p_thoughtSignature = None \<rparr>] \<rparr>,
              cand_finishReason = Some ''STOP'' \<rparr>],
            usageMetadata = Some \<lparr> promptTokenCount = Some 10, candidatesTokenCount = Some 20 \<rparr> \<rparr> \<rparr>"
     "\<lparr> p_text = Some ''Hello'', p_inlineData = None, p_functionCall = None,
                                p_functionResponse = None, p_thoughtSignature = None \<rparr>"
     "\<lparr> p_text = Some '', world!'', p_inlineData = None, p_functionCall = None,
                                p_functionResponse = None, p_thoughtSignature = None \<rparr>"
     "''STOP''" "\<lambda>e. e" "''gemini-2.5-pro''" None]
  by (simp add: mapPromptToGeminiFormat_def mapUserMessage_def prepareGenerationConfig_def
        mapGeminiFinishReason_def Let_def setting_def nullish_def
        effectiveOptionsThinking_def mergedThinkingConfig_def mapGeminiToolConfig_def)

section \<open>Finish reason and usage of both orchestrators\<close>

lemma doGenerate_proceeds:
  "call_proceeds env options \<Longrightarrow>
   doGenerate mapGeminiError modelId settings env (Inr response) options =
     Inr (generate_result modelId (Suc (env_uuid env)) (env_now env)
            (fst (prepareGenerationConfig options settings))
            (snd (prepareGenerationConfig options settings)) response)"
  by (cases "mapPromptToGeminiFormat (prompt options)")
     (simp_all add: call_proceeds_def doGenerate_def ensureInitialized_def case_prod_beta)

lemma doStream_proceeds:
  "call_proceeds env options \<Longrightarrow>
   doStream mapGeminiError modelId settings env (Inr items) options =
     Inr \<lparr> stream_events =
             fst (stream_start mapGeminiError modelId
                    (snd (prepareGenerationConfig options settings))
                    (env_aborted_at_start env) (Suc (env_uuid env)) items),
           stream_outcome =
             snd (stream_start mapGeminiError modelId
                    (snd (prepareGenerationConfig options settings))
                    (env_aborted_at_start env) (Suc (env_uuid env)) items),
           stream_rawSettings = fst (prepareGenerationConfig options settings) \<rparr>"
  by (cases "mapPromptToGeminiFormat (prompt options)")
     (simp_all add: call_proceeds_def doStream_def ensureInitialized_def case_prod_beta)

lemma foldl_push_part_hasToolCalls:
  "g_hasToolCalls (foldl push_part st ps) =
     (g_hasToolCalls st \<or> list_ex is_function_call_part ps)"
  by (induction ps arbitrary: st)
     (auto simp: push_part_def is_function_call_part_def split: option.splits)

lemma generate_result_finishReason:
  "res_finishReason (generate_result modelId uuid0 now cfg ws response) =
     decide_finishReason (list_ex is_function_call_part (chunk_parts response))
       (chunk_reason response)"
  by (simp add: generate_result_def Let_def foldl_push_part_hasToolCalls chunk_parts_def
        chunk_reason_def)

lemma generate_result_usage:
  "res_usage (generate_result modelId uuid0 now cfg ws response) =
     usage_of (usageMetadata response)"
  by (simp add: generate_result_def Let_def usage_of_def response_inputTokens_def
        response_outputTokens_def split: option.splits)

lemma mapGeminiFinishReason_other:
  "r \<noteq> Some ''STOP'' \<Longrightarrow> r \<noteq> Some ''MAX_TOKENS'' \<Longrightarrow> r \<noteq> Some ''SAFETY'' \<Longrightarrow>
   r \<noteq> Some ''RECITATION'' \<Longrightarrow> mapGeminiFinishReason r = \<lparr> fr_unified = Other, fr_raw = r \<rparr>"
  by (simp add: mapGeminiFinishReason_def)

lemma run_chunks_append:
  "none_aborted as \<Longrightarrow>
   run_chunks mapGeminiError modelId st (map Chunk as @ rest) =
     run_chunks mapGeminiError modelId (run_state modelId st as) rest"
  by (induction as arbitrary: st) (simp_all add: none_aborted_def run_state_def)

lemma process_part_extends: "\<exists>post. enqueued (process_part st p) = enqueued st @ post"
  by (simp add: process_part_def emit_text_def emit_tool_call_def enqueue_def
        split: option.splits)

lemma foldl_process_part_extends:
  "\<exists>post. enqueued (foldl process_part st ps) = enqueued st @ post"
proof (induction ps arbitrary: st)
  case (Cons p ps)
  from process_part_extends[of st p] obtain q where
    q: "enqueued (process_part st p) = enqueued st @ q" by blast
  from Cons[of "process_part st p"] obtain q' where
    "enqueued (foldl process_part (process_part st p) ps) = enqueued (process_part st p) @ q'"
    by blast
  with q show ?case by simp
qed simp

lemma finish_chunk_extends:
  "\<exists>post. enqueued (finish_chunk modelId now r st) = enqueued st @ post"
  by (simp add: finish_chunk_def Let_def enqueue_def split: option.splits)

lemma process_chunk_extends:
  "\<exists>post. enqueued (process_chunk modelId now st c) = enqueued st @ post"
proof -
  let ?st1 = "foldl process_part (update_usage (usageMetadata c) st)
                (candidate_parts (first_candidate c))"
  from foldl_process_part_extends[of "update_usage (usageMetadata c) st"]
  obtain q where q: "enqueued ?st1 = enqueued st @ q" by auto
  from finish_chunk_extends[of modelId now "candidate_finishReason (first_candidate c)" ?st1]
  obtain q' where "enqueued (finish_chunk modelId now
                     (candidate_finishReason (first_candidate c)) ?st1) = enqueued ?st1 @ q'"
    by blast
  with q show ?thesis by (simp add: process_chunk_def Let_def)
qed

lemma run_chunks_extends:
  "\<exists>post. enqueued (fst (run_chunks mapGeminiError modelId st items)) = enqueued st @ post"
proof (induction mapGeminiError modelId st items rule: run_chunks.induct)
  case (3 mapGeminiError modelId st a rest)
  show ?case
  proof (cases "arr_aborted a")
    case True
    then show ?thesis by simp
  next
    case False
    from process_chunk_extends[of modelId "arr_now a" st "arr_chunk a"] obtain q where
      q: "enqueued (process_chunk modelId (arr_now a) st (arr_chunk a)) = enqueued st @ q"
      by blast
    from 3[OF False] obtain q' where
      "enqueued (fst (run_chunks mapGeminiError modelId
                        (process_chunk modelId (arr_now a) st (arr_chunk a)) rest))
         = enqueued (process_chunk modelId (arr_now a) st (arr_chunk a)) @ q'"
      by blast
    with q False show ?thesis by simp
  qed
qed simp_all

text \<open>
  Whatever follows a run of chunks that met no abort, the events of the whole stream
  begin with the events of the stream cut after that run.
\<close>

lemma stream_start_prefix:
  assumes "none_aborted as"
  shows "\<exists>post. fst (stream_start mapGeminiError modelId ws False uuid0 (map Chunk as @ rest))
                  = fst (stream_start mapGeminiError modelId ws False uuid0 (map Chunk as)) @ post"
proof -
  let ?init = "enqueue (StreamStart ws)
                 \<lparr> totalInputTokens = 0, totalOutputTokens = 0, textPartId = None,
                   hasToolCalls = False, enqueued = [], next_uuid = uuid0 \<rparr>"
  have a: "fst (stream_start mapGeminiError modelId ws False uuid0 (map Chunk as))
             = enqueued (run_state modelId ?init as)"
    using run_chunks_none_aborted[OF assms, of mapGeminiError modelId ?init]
    by (simp add: stream_start_def Let_def)
  have b: "fst (stream_start mapGeminiError modelId ws False uuid0 (map Chunk as @ rest))
             = enqueued (fst (run_chunks mapGeminiError modelId (run_state modelId ?init as) rest))"
    using run_chunks_append[OF assms, of mapGeminiError modelId ?init rest]
    by (simp add: stream_start_def Let_def case_prod_beta)
  from run_chunks_extends[of mapGeminiError modelId "run_state modelId ?init as" rest]
  show ?thesis by (simp only: a b)
qed

text \<open>
  C2, as the code has it. Let a call proceed to the backend. Without streaming, the
  finish reason returned is "tool-calls", with the backend's raw finish reason beside
  it, exactly when a part of the first candidate is read as a function call, and is the
  mapped backend reason otherwise. With streaming, take any chunk that carries a
  terminal signal and is reached without an abort. The stream cut after that chunk
  closes with a finish event as its last event, whose reason is "tool-calls", with the
  raw reason of that chunk, exactly when a part read as a function call occurred in that
  chunk or an earlier one, and is the mapped reason of that chunk otherwise. Whatever
  the backend delivers after that chunk, the events of the whole stream begin with the
  events of the stream cut there: what comes later is added behind that finish event and
  leaves it as it is. The mapping sends STOP to stop, MAX_TOKENS to length, SAFETY and
  RECITATION to content-filter, and every other value, the missing one included, to
  other, always keeping the raw value.
\<close>

theorem finish_reason_rule:
  assumes "call_proceeds env options"
  shows
    "(\<exists>res. doGenerate mapGeminiError modelId settings env (Inr response) options = Inr res \<and>
        res_finishReason res =
          (if list_ex is_function_call_part (chunk_parts response)
           then \<lparr> fr_unified = ToolCalls, fr_raw = chunk_reason response \<rparr>
           else mapGeminiFinishReason (chunk_reason response))) \<and>
     (\<not> env_aborted_at_start env \<and> none_aborted (as @ [a]) \<and> terminal (arr_chunk a) \<longrightarrow>
        (\<exists>sr0 sr post u.
           doStream mapGeminiError modelId settings env (Inr (map Chunk (as @ [a]))) options
             = Inr sr0 \<and>
           stream_outcome sr0 = Closed \<and>
           last (stream_events sr0) =
             Finish (if has_tool_call (map arr_chunk (as @ [a]))
                     then \<lparr> fr_unified = ToolCalls, fr_raw = chunk_reason (arr_chunk a) \<rparr>
                     else mapGeminiFinishReason (chunk_reason (arr_chunk a))) u \<and>
           doStream mapGeminiError modelId settings env (Inr (map Chunk (as @ [a]) @ rest)) options
             = Inr sr \<and>
           stream_events sr = stream_events sr0 @ post)) \<and>
     mapGeminiFinishReason (Some ''STOP'') = \<lparr> fr_unified = Stop, fr_raw = Some ''STOP'' \<rparr> \<and>
     mapGeminiFinishReason (Some ''MAX_TOKENS'') =
       \<lparr> fr_unified = Length, fr_raw = Some ''MAX_TOKENS'' \<rparr> \<and>
     mapGeminiFinishReason (Some ''SAFETY'') =
       \<lparr> fr_unified = ContentFilter, fr_raw = Some ''SAFETY'' \<rparr> \<and>
     mapGeminiFinishReason (Some ''RECITATION'') =
       \<lparr> fr_unified = ContentFilter, fr_raw = Some ''RECITATION'' \<rparr> \<and>
     (r \<notin> {Some ''STOP'', Some ''MAX_TOKENS'', Some ''SAFETY'', Some ''RECITATION''} \<longrightarrow>
        mapGeminiFinishReason r = \<lparr> fr_unified = Other, fr_raw = r \<rparr>)"
proof -
  have gen: "\<exists>res. doGenerate mapGeminiError modelId settings env (Inr response) options = Inr res \<and>
        res_finishReason res =
          (if list_ex is_function_call_part (chunk_parts response)
           then \<lparr> fr_unified = ToolCalls, fr_raw = chunk_reason response \<rparr>
           else mapGeminiFinishReason (chunk_reason response))"
    using doGenerate_proceeds[OF assms]
    by (simp add: generate_result_finishReason decide_finishReason_def)
  have str: "\<exists>sr0 sr post u.
           doStream mapGeminiError modelId settings env (Inr (map Chunk (as @ [a]))) options
             = Inr sr0 \<and>
           stream_outcome sr0 = Closed \<and>
           last (stream_events sr0) =
             Finish (if has_tool_call (map arr_chunk (as @ [a]))
                     then \<lparr> fr_unified = ToolCalls, fr_raw = chunk_reason (arr_chunk a) \<rparr>
                     else mapGeminiFinishReason (chunk_reason (arr_chunk a))) u \<and>
           doStream mapGeminiError modelId settings env (Inr (map Chunk (as @ [a]) @ rest)) options
             = Inr sr \<and>
           stream_events sr = stream_events sr0 @ post"
    if h: "\<not> env_aborted_at_start env" "none_aborted (as @ [a])" "terminal (arr_chunk a)"
  proof -
    let ?ws = "snd (prepareGenerationConfig options settings)"
    let ?cut = "stream_start mapGeminiError modelId ?ws False (Suc (env_uuid env))
                  (map Chunk (as @ [a]))"
    let ?all = "stream_start mapGeminiError modelId ?ws False (Suc (env_uuid env))
                  (map Chunk (as @ [a]) @ rest)"
    from stream_start_prefix[OF h(2), of mapGeminiError modelId ?ws "Suc (env_uuid env)" rest]
    obtain post where post: "fst ?all = fst ?cut @ post" by blast
    have cut: "snd ?cut = Closed"
      "last (fst ?cut) =
         Finish (decide_finishReason (has_tool_call (map arr_chunk (as @ [a])))
                   (chunk_reason (arr_chunk a)))
                (usage_of (last_usage (map arr_chunk (as @ [a]))))"
      using stream_finish_event[OF h(2,3), of mapGeminiError modelId ?ws "Suc (env_uuid env)"]
      by simp_all
    show ?thesis
      using doStream_proceeds[OF assms, of mapGeminiError modelId settings "map Chunk (as @ [a])"]
        doStream_proceeds[OF assms, of mapGeminiError modelId settings
          "map Chunk (as @ [a]) @ rest"]
        h(1) cut post
      by (simp add: decide_finishReason_def)
  qed
  have tab: "mapGeminiFinishReason (Some ''STOP'') = \<lparr> fr_unified = Stop, fr_raw = Some ''STOP'' \<rparr>"
    "mapGeminiFinishReason (Some ''MAX_TOKENS'') =
       \<lparr> fr_unified = Length, fr_raw = Some ''MAX_TOKENS'' \<rparr>"
    "mapGeminiFinishReason (Some ''SAFETY'') =
       \<lparr> fr_unified = ContentFilter, fr_raw = Some ''SAFETY'' \<rparr>"
    "mapGeminiFinishReason (Some ''RECITATION'') =
       \<lparr> fr_unified = ContentFilter, fr_raw = Some ''RECITATION'' \<rparr>"
    by (simp_all add: mapGeminiFinishReason_def)
  have oth: "r \<notin> {Some ''STOP'', Some ''MAX_TOKENS'', Some ''SAFETY'', Some ''RECITATION''} \<longrightarrow>
        mapGeminiFinishReason r = \<lparr> fr_unified = Other, fr_raw = r \<rparr>"
    using mapGeminiFinishReason_other[of r] by simp
  from gen str tab oth show ?thesis by blast
qed

lemmas test_defs =
  test_options_def test_env_def test_config_def test_chunk_def call_part_def arrives_def
  arrives_aborted_def text_part_def

lemmas eval_defs =
  call_proceeds_def mapPromptToGeminiFormat_def mapUserMessage_def mapAssistantMessage_def
  media_type_or_default_def startsWith_def mapFilePart_def
  doStream_def doGenerate_def ensureInitialized_def stream_start_def process_chunk_def
  update_usage_def process_part_def emit_text_def emit_tool_call_def finish_chunk_def
  enqueue_def decide_finishReason_def mapGeminiFinishReason_def make_usage_def
  generate_result_def push_part_def response_inputTokens_def response_outputTokens_def
  chunk_parts_def chunk_reason_def terminal_def is_function_call_part_def has_tool_call_def
  none_aborted_def usage_of_def abortError_def

theorem finish_reason_rule_witness:
  "(\<exists>res. doGenerate (\<lambda>e. e) ''gemini-2.5-pro'' None test_env
             (Inr (test_chunk [call_part ''get_weather''] (Some ''STOP'') None)) test_options
           = Inr res \<and>
          res_finishReason res = \<lparr> fr_unified = ToolCalls, fr_raw = Some ''STOP'' \<rparr>) \<and>
   (\<exists>sr0 sr post u.
      doStream (\<lambda>e. e) ''gemini-2.5-pro'' None test_env
        (Inr [Chunk (arrives 1 (test_chunk [text_part ''Hi''] (Some ''STOP'') None))]) test_options
        = Inr sr0 \<and>
      stream_outcome sr0 = Closed \<and>
      last (stream_events sr0) = Finish \<lparr> fr_unified = Stop, fr_raw = Some ''STOP'' \<rparr> u \<and>
      doStream (\<lambda>e. e) ''gemini-2.5-pro'' None test_env
        (Inr [Chunk (arrives 1 (test_chunk [text_part ''Hi''] (Some ''STOP'') None)),
              Chunk (arrives 2 (test_chunk [call_part ''get_weather''] None None))]) test_options
        = Inr sr \<and>
      stream_events sr = stream_events sr0 @ post) \<and>
   mapGeminiFinishReason None = \<lparr> fr_unified = Other, fr_raw = None \<rparr>"
  using finish_reason_rule[of test_env test_options "\<lambda>e. e" "''gemini-2.5-pro''" None
          "test_chunk [call_part ''get_weather''] (Some ''STOP'') None"
          "[]"
          "arrives 1 (test_chunk [text_part ''Hi''] (Some ''STOP'') None)"
          "[Chunk (arrives 2 (test_chunk [call_part ''get_weather''] None None))]" None]
  by (simp add: test_defs call_proceeds_def mapPromptToGeminiFormat_def mapUserMessage_def
        chunk_parts_def chunk_reason_def terminal_def is_function_call_part_def
        has_tool_call_def none_aborted_def mapGeminiFinishReason_def)

text \<open>
  C2 as stated fails on a stream in which the function call arrives after the chunk
  that carried the terminal signal: the only finish event has been emitted by then,
  with the mapped reason "stop".
\<close>

theorem finish_reason_counterexample:
  "doStream (\<lambda>e. e) ''gemini-2.5-pro'' None test_env
     (Inr [Chunk (arrives 1 (test_chunk [text_part ''Hi''] (Some ''STOP'') None)),
           Chunk (arrives 2 (test_chunk [call_part ''get_weather''] None None))]) test_options
   = Inr \<lparr> stream_events =
             [StreamStart [], TextStart 1, TextDelta 1 ''Hi'', TextEnd 1,
              ResponseMetadata 2 1 ''gemini-2.5-pro'',
              Finish \<lparr> fr_unified = Stop, fr_raw = Some ''STOP'' \<rparr>
                \<lparr> u_inputTokens = \<lparr> in_total = Some 0, noCache = None, cacheRead = None,
                                     cacheWrite = None \<rparr>,
                  u_outputTokens = \<lparr> out_total = Some 0, out_text = None, reasoning = None \<rparr> \<rparr>,
              ToolCall 3 ''get_weather'' (JObj []) None],
           stream_outcome = Closed,
           stream_rawSettings = test_config \<rparr>"
  by (simp add: test_defs eval_defs config_defs)

text \<open>
  C3, as the code has it. Let a call proceed to the backend. The usage returned without
  streaming is built from the response's usage metadata, and the usage of the finish
  event that ends a stream is built from the usage metadata of the last chunk that
  carried any. In the usage so built, the input total is the number 0 when the metadata
  or its prompt-token count is missing, the output total is the number 0 when the
  metadata or its candidate-token count is missing, and the five breakdown fields are
  unknown.
\<close>

theorem usage_totals_default_to_zero:
  assumes "call_proceeds env options"
  shows
    "(\<exists>res. doGenerate mapGeminiError modelId settings env (Inr response) options = Inr res \<and>
        res_usage res = usage_of (usageMetadata response)) \<and>
     (\<not> env_aborted_at_start env \<and> none_aborted (as @ [a]) \<and> terminal (arr_chunk a) \<longrightarrow>
        (\<exists>sr fr. doStream mapGeminiError modelId settings env (Inr (map Chunk (as @ [a]))) options
                    = Inr sr \<and>
           last (stream_events sr) =
             Finish fr (usage_of (last_usage (map arr_chunk (as @ [a])))))) \<and>
     (um = None \<or> (\<exists>u. um = Some u \<and> promptTokenCount u = None) \<longrightarrow>
        in_total (u_inputTokens (usage_of um)) = Some 0) \<and>
     (um = None \<or> (\<exists>u. um = Some u \<and> candidatesTokenCount u = None) \<longrightarrow>
        out_total (u_outputTokens (usage_of um)) = Some 0) \<and>
     noCache (u_inputTokens (usage_of um)) = None \<and>
     cacheRead (u_inputTokens (usage_of um)) = None \<and>
     cacheWrite (u_inputTokens (usage_of um)) = None \<and>
     out_text (u_outputTokens (usage_of um)) = None \<and>
     reasoning (u_outputTokens (usage_of um)) = None"
proof -
  have gen: "\<exists>res. doGenerate mapGeminiError modelId settings env (Inr response) options = Inr res \<and>
        res_usage res = usage_of (usageMetadata response)"
    using doGenerate_proceeds[OF assms] by (simp add: generate_result_usage)
  have str: "\<exists>sr fr. doStream mapGeminiError modelId settings env (Inr (map Chunk (as @ [a]))) options
                    = Inr sr \<and>
           last (stream_events sr) =
             Finish fr (usage_of (last_usage (map arr_chunk (as @ [a]))))"
    if h: "\<not> env_aborted_at_start env" "none_aborted (as @ [a])" "terminal (arr_chunk a)"
    using doStream_proceeds[OF assms, of mapGeminiError modelId settings "map Chunk (as @ [a])"]
      stream_finish_event[OF h(2,3), of mapGeminiError modelId
        "snd (prepareGenerationConfig options settings)" "Suc (env_uuid env)"] h(1)
    by simp
  have tot: "um = None \<or> (\<exists>u. um = Some u \<and> promptTokenCount u = None) \<longrightarrow>
        in_total (u_inputTokens (usage_of um)) = Some 0"
    "um = None \<or> (\<exists>u. um = Some u \<and> candidatesTokenCount u = None) \<longrightarrow>
        out_total (u_outputTokens (usage_of um)) = Some 0"
    by (auto simp: usage_of_def make_usage_def)
  have brk: "noCache (u_inputTokens (usage_of um)) = None"
    "cacheRead (u_inputTokens (usage_of um)) = None"
    "cacheWrite (u_inputTokens (usage_of um)) = None"
    "out_text (u_outputTokens (usage_of um)) = None"
    "reasoning (u_outputTokens (usage_of um)) = None"
    by (simp_all add: usage_of_def make_usage_def split: option.splits)
  from gen str tot brk show ?thesis by blast
qed

theorem usage_totals_default_to_zero_witness:
  "(\<exists>res. doGenerate (\<lambda>e. e) ''gemini-2.5-pro'' None test_env
             (Inr (test_chunk [text_part ''Hi''] (Some ''STOP'')
                     (Some \<lparr> promptTokenCount = None, candidatesTokenCount = Some 20 \<rparr>)))
             test_options = Inr res \<and>
          res_usage res = make_usage 0 20) \<and>
   (\<exists>sr fr. doStream (\<lambda>e. e) ''gemini-2.5-pro'' None test_env
              (Inr [Chunk (arrives 1 (test_chunk [text_part ''Hi''] None None)),
                    Chunk (arrives 2 (test_chunk [] (Some ''STOP'') None))]) test_options
             = Inr sr \<and>
            last (stream_events sr) = Finish fr (make_usage 0 0)) \<and>
   in_total (u_inputTokens (usage_of None)) = Some 0 \<and>
   out_total (u_outputTokens (usage_of None)) = Some 0"
  using usage_totals_default_to_zero[of test_env test_options "\<lambda>e. e" "''gemini-2.5-pro''" None
          "test_chunk [text_part ''Hi''] (Some ''STOP'')
             (Some \<lparr> promptTokenCount = None, candidatesTokenCount = Some 20 \<rparr>)"
          "[arrives 1 (test_chunk [text_part ''Hi''] None None)]"
          "arrives 2 (test_chunk [] (Some ''STOP'') None)" None]
  by (simp add: test_defs call_proceeds_def mapPromptToGeminiFormat_def mapUserMessage_def
        chunk_parts_def chunk_reason_def terminal_def none_aborted_def usage_of_def)

text \<open>
  C3 as stated fails on a response without usage metadata: both totals come back as the
  number 0, not as unknown.
\<close>

theorem usage_unknown_counterexample:
  "doGenerate (\<lambda>e. e) ''gemini-2.5-pro'' None test_env
     (Inr (test_chunk [text_part ''Hi''] (Some ''STOP'') None)) test_options
   = Inr \<lparr> res_content = [ContentText ''Hi''],
           res_finishReason = \<lparr> fr_unified = Stop, fr_raw = Some ''STOP'' \<rparr>,
           res_usage =
             \<lparr> u_inputTokens = \<lparr> in_total = Some 0, noCache = None, cacheRead = None,
                                  cacheWrite = None \<rparr>,
               u_outputTokens = \<lparr> out_total = Some 0, out_text = None, reasoning = None \<rparr> \<rparr>,
           res_warnings = [],
           res_rawSettings = test_config,
           res_id = 1, res_timestamp = 0, res_modelId = ''gemini-2.5-pro'' \<rparr>"
  by (simp add: test_defs eval_defs config_defs)

section \<open>Message mapper: file parts\<close>

text \<open>
  C8, evaluated where it fails. An assistant message whose only part is a file of media
  type text/plain maps to a content entry with no parts and no error: the file part is
  dropped. The same part in a user message is rejected with the error that names the
  media type.
\<close>

theorem assistant_file_part_dropped:
  "mapPromptToGeminiFormat [AssistantMessage [FilePart (DataString ''aGVsbG8='') ''text/plain'']]
     = Inr \<lparr> contents = [\<lparr> c_role = Some ''model'', c_parts = Some [] \<rparr>],
             systemInstruction = None \<rparr>
   \<and> mapPromptToGeminiFormat [UserMessage [FilePart (DataString ''aGVsbG8='') ''text/plain'']]
     = Inl (Error ''Error'' ''Unsupported file type: text/plain'')"
  by (simp add: mapPromptToGeminiFormat_def mapAssistantMessage_def mapUserMessage_def
        media_type_or_default_def startsWith_def)

section \<open>Streaming: cancellation before the first chunk\<close>

text \<open>
  An abort seen at the check before the backend call, or at the check right after the
  backend stream has been created, fails the call with the mapped abort error: no stream
  is returned and no event is emitted.
\<close>

lemma abort_seen_before_stream:
  assumes "env_init env = None" and "\<not> isl (mapPromptToGeminiFormat (prompt options))"
  shows "env_aborted_before env \<Longrightarrow>
           doStream mapGeminiError modelId settings env backend options
             = Inl (mapGeminiError abortError)"
    and "\<not> env_aborted_before env \<Longrightarrow> env_aborted_after env \<Longrightarrow>
           doStream mapGeminiError modelId settings env (Inr items) options
             = Inl (mapGeminiError abortError)"
  using assms
  by (cases "mapPromptToGeminiFormat (prompt options)";
      simp add: doStream_def ensureInitialized_def case_prod_beta)+

text \<open>
  C9, evaluated where it fails. The abort is signalled after the stream has been created
  and before the backend delivers its first chunk. By then the start callback has handed
  stream-start to the controller, and the stream is errored with the abort error only
  as the first chunk arrives, which is the next time the signal is read.
\<close>

theorem stream_start_emitted_before_abort_seen:
  "doStream (\<lambda>e. e) ''gemini-2.5-pro'' None test_env
     (Inr [Chunk (arrives_aborted 1 (test_chunk [text_part ''Hi''] None None))]) test_options
   = Inr \<lparr> stream_events = [StreamStart []],
           stream_outcome = Errored (Error ''AbortError'' ''Request aborted''),
           stream_rawSettings = test_config \<rparr>"
  by (simp add: test_defs eval_defs config_defs)

section \<open>Streaming: the single text block\<close>

lemma text_start_has_id: "is_text_start e \<Longrightarrow> text_event_id e \<noteq> None"
  by (cases e) simp_all

lemma no_text_no_start:
  "list_all (\<lambda>e. text_event_id e = None) evs \<Longrightarrow> filter is_text_start evs = []"
proof (induction evs)
  case (Cons e evs)
  then show ?case using text_start_has_id[of e] by auto
qed simp

lemma text_inv_enqueue_other:
  "text_event_id e = None \<Longrightarrow> text_inv (enqueue e st) = text_inv st"
  using text_start_has_id[of e]
  by (auto simp: text_inv_def enqueue_def split: option.splits)

lemma text_inv_emit_text: "text_inv st \<Longrightarrow> text_inv (emit_text t st)"
proof (cases "textPartId st")
  case None
  assume "text_inv st"
  with None have all: "list_all (\<lambda>e. text_event_id e = None) (enqueued st)"
    by (simp add: text_inv_def)
  then have "filter is_text_start (enqueued st) = []"
    by (rule no_text_no_start)
  with None all show ?thesis
    by (simp add: text_inv_def emit_text_def enqueue_def list_all_iff)
next
  case (Some i)
  assume "text_inv st"
  with Some show ?thesis
    by (simp add: text_inv_def emit_text_def enqueue_def)
qed

lemma text_inv_emit_tool_call: "text_inv st \<Longrightarrow> text_inv (emit_tool_call fc sig st)"
  by (simp add: text_inv_def emit_tool_call_def enqueue_def split: option.splits)

lemma text_inv_process_part: "text_inv st \<Longrightarrow> text_inv (process_part st p)"
  by (simp add: process_part_def text_inv_emit_text text_inv_emit_tool_call split: option.splits)

lemma text_inv_foldl: "text_inv st \<Longrightarrow> text_inv (foldl process_part st ps)"
  by (induction ps arbitrary: st) (simp_all add: text_inv_process_part)

lemma text_inv_update_usage: "text_inv st \<Longrightarrow> text_inv (update_usage um st)"
  by (simp add: text_inv_def split: option.splits)

lemma text_inv_finish_chunk: "text_inv st \<Longrightarrow> text_inv (finish_chunk modelId now r st)"
  by (simp add: text_inv_def finish_chunk_def Let_def enqueue_def split: option.splits)

lemma text_inv_process_chunk: "text_inv st \<Longrightarrow> text_inv (process_chunk modelId now st c)"
  by (simp add: process_chunk_def Let_def text_inv_finish_chunk text_inv_foldl
        text_inv_update_usage)

lemma text_inv_run_chunks:
  "text_inv st \<Longrightarrow> text_inv (fst (run_chunks mapGeminiError modelId st items))"
  by (induction mapGeminiError modelId st items rule: run_chunks.induct)
     (simp_all add: text_inv_process_chunk)

lemma text_inv_starts:
  assumes "text_inv st"
  shows "length (filter is_text_start (enqueued st)) \<le> 1"
proof (cases "textPartId st")
  case None
  with assms have "list_all (\<lambda>e. text_event_id e = None) (enqueued st)"
    by (simp add: text_inv_def)
  then have "filter is_text_start (enqueued st) = []"
    by (rule no_text_no_start)
  then show ?thesis by simp
next
  case (Some i)
  with assms show ?thesis by (simp add: text_inv_def)
qed

lemma text_inv_ids:
  assumes "text_inv st"
  shows "\<exists>i. list_all (\<lambda>e. text_event_id e = None \<or> text_event_id e = Some i) (enqueued st)"
proof (cases "textPartId st")
  case None
  with assms have "list_all (\<lambda>e. text_event_id e = None) (enqueued st)"
    by (simp add: text_inv_def)
  then have "list_all (\<lambda>e. text_event_id e = None \<or> text_event_id e = Some 0) (enqueued st)"
    by (simp add: list_all_iff)
  then show ?thesis by (rule exI)
next
  case (Some i)
  with assms
  have "list_all (\<lambda>e. text_event_id e = None \<or> text_event_id e = Some i) (enqueued st)"
    by (simp add: text_inv_def)
  then show ?thesis by (rule exI)
qed

lemma text_ends_process_part: "text_ends (process_part st p) = text_ends st"
  by (simp add: text_ends_def process_part_def emit_text_def emit_tool_call_def enqueue_def
        split: option.splits)

lemma text_ends_foldl: "text_ends (foldl process_part st ps) = text_ends st"
  by (induction ps arbitrary: st) (simp_all add: text_ends_process_part)

lemma text_ends_finish_chunk:
  "text_ends (finish_chunk modelId now r st) \<le> text_ends st + (if truthy_str r then 1 else 0)"
  by (simp add: text_ends_def finish_chunk_def Let_def enqueue_def split: option.splits)

lemma text_ends_process_chunk:
  "text_ends (process_chunk modelId now st c) \<le> text_ends st + (if terminal c then 1 else 0)"
proof -
  have "text_ends (foldl process_part (update_usage (usageMetadata c) st) (chunk_parts c))
          = text_ends st"
    by (simp add: text_ends_foldl) (simp add: text_ends_def)
  with text_ends_finish_chunk[of modelId now "chunk_reason c"
         "foldl process_part (update_usage (usageMetadata c) st) (chunk_parts c)"]
  show ?thesis
    by (simp add: process_chunk_def Let_def terminal_def chunk_parts_def chunk_reason_def)
qed

lemma text_ends_run_chunks:
  "text_ends (fst (run_chunks mapGeminiError modelId st items))
     \<le> text_ends st + length (filter terminal_item items)"
proof (induction mapGeminiError modelId st items rule: run_chunks.induct)
  case (3 mapGeminiError modelId st a rest)
  show ?case
  proof (cases "arr_aborted a")
    case True
    then show ?thesis by simp
  next
    case False
    with 3 text_ends_process_chunk[of modelId "arr_now a" st "arr_chunk a"]
    show ?thesis by (simp split: if_splits)
  qed
qed simp_all

text \<open>
  C10, as the code has it. Whatever the backend delivers and wherever the stream ends,
  the events of a returned stream hold at most one text-start, every text-start,
  text-delta and text-end among them carries one and the same id, and there are at most
  as many text-end events as chunks that carry a terminal signal.
\<close>

theorem single_text_block:
  assumes "doStream mapGeminiError modelId settings env (Inr items) options = Inr sr"
  shows "length (filter is_text_start (stream_events sr)) \<le> 1 \<and>
         (\<exists>i. list_all (\<lambda>e. text_event_id e = None \<or> text_event_id e = Some i) (stream_events sr)) \<and>
         length (filter is_text_end (stream_events sr)) \<le> length (filter terminal_item items)"
proof -
  let ?ws = "snd (prepareGenerationConfig options settings)"
  let ?init = "enqueue (StreamStart ?ws)
                \<lparr> totalInputTokens = 0, totalOutputTokens = 0, textPartId = None,
                  hasToolCalls = False, enqueued = [], next_uuid = Suc (env_uuid env) \<rparr>"
  let ?final = "fst (run_chunks mapGeminiError modelId ?init items)"
  have ev: "stream_events sr = [] \<or> stream_events sr = enqueued ?final"
    using assms
    by (auto simp: doStream_def stream_start_def Let_def case_prod_beta
          split: option.splits sum.splits if_splits)
  have inv0: "text_inv ?init" by (simp add: text_inv_def enqueue_def)
  have inv: "text_inv ?final" using text_inv_run_chunks[OF inv0] .
  have ends: "text_ends ?final \<le> length (filter terminal_item items)"
    using text_ends_run_chunks[of mapGeminiError modelId ?init items]
    by (simp add: text_ends_def enqueue_def)
  have starts: "length (filter is_text_start (enqueued ?final)) \<le> 1"
    using inv by (rule text_inv_starts)
  have ids: "\<exists>i. list_all (\<lambda>e. text_event_id e = None \<or> text_event_id e = Some i) (enqueued ?final)"
    using inv by (rule text_inv_ids)
  from ev show ?thesis
  proof
    assume "stream_events sr = []"
    then show ?thesis by simp
  next
    assume "stream_events sr = enqueued ?final"
    with starts ids ends show ?thesis by (simp add: text_ends_def)
  qed
qed

theorem single_text_block_witness:
  "length (filter is_text_start
     [StreamStart [], TextStart 1, TextDelta 1 ''Hi'', TextEnd 1,
      ResponseMetadata 2 1 ''gemini-2.5-pro'',
      Finish \<lparr> fr_unified = Stop, fr_raw = Some ''STOP'' \<rparr> (make_usage 0 0),
      TextDelta 1 ''more'']) \<le> 1 \<and>
   length (filter is_text_end
     [StreamStart [], TextStart 1, TextDelta 1 ''Hi'', TextEnd 1,
      ResponseMetadata 2 1 ''gemini-2.5-pro'',
      Finish \<lparr> fr_unified = Stop, fr_raw = Some ''STOP'' \<rparr> (make_usage 0 0),
      TextDelta 1 ''more'']) \<le> 1"
  using single_text_block[of "\<lambda>e. e" "''gemini-2.5-pro''" None test_env
      "[Chunk (arrives 1 (test_chunk [text_part ''Hi''] (Some ''STOP'') None)),
        Chunk (arrives 2 (test_chunk [text_part ''more''] None None))]"
      test_options
      "\<lparr> stream_events =
           [StreamStart [], TextStart 1, TextDelta 1 ''Hi'', TextEnd 1,
            ResponseMetadata 2 1 ''gemini-2.5-pro'',
            Finish \<lparr> fr_unified = Stop, fr_raw = Some ''STOP'' \<rparr> (make_usage 0 0),
            TextDelta 1 ''more''],
         stream_outcome = Closed, stream_rawSettings = test_config \<rparr>"]
  by (simp add: test_defs eval_defs config_defs)

text \<open>
  C10 as stated fails on a stream in which two chunks carry a terminal signal after the
  text block was opened: text-end is emitted for each of them.
\<close>

theorem two_text_ends_counterexample:
  "doStream (\<lambda>e. e) ''gemini-2.5-pro'' None test_env
     (Inr [Chunk (arrives 1 (test_chunk [text_part ''Hi''] (Some ''STOP'') None)),
           Chunk (arrives 2 (test_chunk [text_part ''more''] (Some ''STOP'') None))]) test_options
   = Inr \<lparr> stream_events =
             [StreamStart [], TextStart 1, TextDelta 1 ''Hi'', TextEnd 1,
              ResponseMetadata 2 1 ''gemini-2.5-pro'',
              Finish \<lparr> fr_unified = Stop, fr_raw = Some ''STOP'' \<rparr>
                \<lparr> u_inputTokens = \<lparr> in_total = Some 0, noCache = None, cacheRead = None,
                                     cacheWrite = None \<rparr>,
                  u_outputTokens = \<lparr> out_total = Some 0, out_text = None, reasoning = None \<rparr> \<rparr>,
              TextDelta 1 ''more'', TextEnd 1,
              ResponseMetadata 3 2 ''gemini-2.5-pro'',
              Finish \<lparr> fr_unified = Stop, fr_raw = Some ''STOP'' \<rparr>
                \<lparr> u_inputTokens = \<lparr> in_total = Some 0, noCache = None, cacheRead = None,
                                     cacheWrite = None \<rparr>,
                  u_outputTokens = \<lparr> out_total = Some 0, out_text = None, reasoning = None \<rparr> \<rparr>],
           stream_outcome = Closed,
           stream_rawSettings = test_config \<rparr>"
  by (simp add: test_defs eval_defs config_defs)

section \<open>Schema cleaner: idempotence and removed keys\<close>





















lemma cleanJsonSchema_entries:
  "own_entries s = Some kv \<Longrightarrow> cleanJsonSchema s = JObj (clean_object cleanJsonSchema kv)"
  by (subst cleanJsonSchema.simps)
     (simp add: Let_def clean_object_def default_type_def clean_array_def clean_additional_def
        clean_items_def clean_properties_def delete_removed_def)

lemma cleanJsonSchema_other:
  "own_entries s = None \<Longrightarrow> cleanJsonSchema s = s"
  by (subst cleanJsonSchema.simps) simp

lemma cleanJsonSchema_eval:
  "cleanJsonSchema (JObj kv) = JObj (clean_object cleanJsonSchema kv)"
  "cleanJsonSchema (JArr xs) = JObj (clean_object cleanJsonSchema (array_entries xs))"
  "cleanJsonSchema JUndefined = JUndefined"
  "cleanJsonSchema JNull = JNull"
  "cleanJsonSchema (JBool b) = JBool b"
  "cleanJsonSchema (JNum n) = JNum n"
  "cleanJsonSchema (JStr t) = JStr t"
  by (simp_all add: cleanJsonSchema_entries cleanJsonSchema_other)








lemmas cleaner_eval =
  cleanJsonSchema_eval clean_object_def default_type_def clean_array_def clean_additional_def
  clean_items_def clean_properties_def delete_removed_def get_prop_def AList.delete_eq
  subschemas_def array_elems_def items_schemas_def own_keys_def removed_keys_def
  descendants.simps tuple_items_def single_items_def



text \<open>
  An items in the tuple form is copied as an object with the indices as keys, and its
  elements are not cleaned: a $ref in an element stays.
\<close>

lemma tuple_items_not_cleaned:
  "cleanJsonSchema (JObj [(''type'', JStr ''array''),
                          (''items'', JArr [JObj [(''$ref'', JStr ''#/x'')]])])
     = JObj [(''type'', JStr ''array''),
             (''items'', JObj [(''0'', JObj [(''$ref'', JStr ''#/x'')])])]"
  by (simp add: cleaner_eval array_entries_def show_nat.simps digit_char_def)

end
